theory Spec2Isabelle
  imports Main "HOL-Library.Char_ord" "HOL-Library.List_Lexorder" "HOL-Library.Sublist"
    "HOL-Library.AList"
begin

section \<open>Python values\<close>

text \<open>
  The tool (\<^verbatim>\<open>viewportCapture_2025_v03.py\<close>) keeps its Settings Snapshot as a plain Python
  dictionary of dictionaries. The values it meets are those the host hands out
  (booleans, integers, floats, strings, lists and tuples) and those \<^verbatim>\<open>json.load\<close>
  builds (\<^verbatim>\<open>None\<close>, booleans, integers, floats, strings, lists, dictionaries).

  \<^item> A dictionary is an association list in insertion order, which is the order
    \<^verbatim>\<open>.items()\<close> iterates in; its keys are strings (the only keys the tool writes or
    \<^verbatim>\<open>json.load\<close> produces). A Python dictionary has no key twice: \<open>wf_pyval\<close> below.
  \<^item> A string is a list of characters, each a code point below 256.
  \<^item> The program does no arithmetic on floats. It prints them, tests them for truth and
    (for one field) converts them with \<^verbatim>\<open>int()\<close>; a float is therefore represented by
    the text \<^verbatim>\<open>repr\<close> gives for it and by its truncation toward zero (\<open>None\<close> for
    \<^verbatim>\<open>inf\<close> and \<^verbatim>\<open>nan\<close>, which have none).
  \<^item> Integers are unbounded, as Python's are.
\<close>

datatype error =
  KeyError | TypeError | AttributeError | IndexError | ValueError | OverflowError
  | OSError | JSONDecodeError

datatype pyfloat = PyFloat (float_repr: string) (float_trunc: "int option")

datatype pyval =
  PNone
  | PBool bool
  | PInt int
  | PFloat pyfloat
  | PStr string
  | PList "pyval list"
  | PTuple "pyval list"
  | PDict "(string \<times> pyval) list"

text \<open>No dictionary inside the value has a key twice.\<close>

fun wf_pyval :: "pyval \<Rightarrow> bool" and wf_pyvals :: "pyval list \<Rightarrow> bool"
  and wf_items :: "(string \<times> pyval) list \<Rightarrow> bool" where
  "wf_pyval (PList xs) = wf_pyvals xs"
| "wf_pyval (PTuple xs) = wf_pyvals xs"
| "wf_pyval (PDict d) = (distinct (map fst d) \<and> wf_items d)"
| "wf_pyval PNone = True"
| "wf_pyval (PBool b) = True"
| "wf_pyval (PInt i) = True"
| "wf_pyval (PFloat f) = True"
| "wf_pyval (PStr s) = True"
| "wf_pyvals [] = True"
| "wf_pyvals (x # xs) = (wf_pyval x \<and> wf_pyvals xs)"
| "wf_items [] = True"
| "wf_items (kv # d) = (wf_pyval (snd kv) \<and> wf_items d)"

subsection \<open>Truth value, \<^verbatim>\<open>isinstance\<close>\<close>

text \<open>\<^verbatim>\<open>bool(v)\<close>, as \<^verbatim>\<open>if v\<close> and \<^verbatim>\<open>not v\<close> use it.\<close>

fun py_truthy :: "pyval \<Rightarrow> bool" where
  "py_truthy PNone = False"
| "py_truthy (PBool b) = b"
| "py_truthy (PInt i) = (i \<noteq> 0)"
| "py_truthy (PFloat f) = (float_repr f \<noteq> ''0.0'' \<and> float_repr f \<noteq> ''-0.0'')"
| "py_truthy (PStr s) = (s \<noteq> [])"
| "py_truthy (PList xs) = (xs \<noteq> [])"
| "py_truthy (PTuple xs) = (xs \<noteq> [])"
| "py_truthy (PDict d) = (d \<noteq> [])"

fun isinstance_bool :: "pyval \<Rightarrow> bool" where
  "isinstance_bool (PBool b) = True"
| "isinstance_bool v = False"

text \<open>\<^verbatim>\<open>isinstance(value, (list, tuple))\<close>\<close>

fun isinstance_list_tuple :: "pyval \<Rightarrow> bool" where
  "isinstance_list_tuple (PList xs) = True"
| "isinstance_list_tuple (PTuple xs) = True"
| "isinstance_list_tuple v = False"

subsection \<open>\<^verbatim>\<open>str\<close>, \<^verbatim>\<open>repr\<close>, \<^verbatim>\<open>str.lower\<close>, \<^verbatim>\<open>str.join\<close>\<close>

definition digit_char :: "nat \<Rightarrow> char" where
  "digit_char d = ''0123456789abcdef'' ! (d mod 16)"

fun nat_digits :: "nat \<Rightarrow> string" where
  "nat_digits n = (if n < 10 then [digit_char n] else nat_digits (n div 10) @ [digit_char (n mod 10)])"

declare nat_digits.simps [simp del]

definition int_str :: "int \<Rightarrow> string" where
  "int_str i = (if i < 0 then CHR ''-'' # nat_digits (nat (- i)) else nat_digits (nat i))"

text \<open>
  \<^verbatim>\<open>str.isprintable\<close> on the code points below 256: the ASCII range from the space to the
  tilde, and the Latin-1 range except the no-break space and the soft hyphen.
\<close>

definition py_printable :: "char \<Rightarrow> bool" where
  "py_printable c = (let n = (of_char c :: nat) in (32 \<le> n \<and> n < 127) \<or> (161 \<le> n \<and> n \<noteq> 173))"

definition py_repr_char :: "char \<Rightarrow> char \<Rightarrow> string" where
  "py_repr_char q c =
     (if c = q \<or> c = CHR 0x5C then [CHR 0x5C, c]
      else if c = CHR 0x09 then [CHR 0x5C, CHR ''t'']
      else if c = CHR 0x0A then [CHR 0x5C, CHR ''n'']
      else if c = CHR 0x0D then [CHR 0x5C, CHR ''r'']
      else if py_printable c then [c]
      else [CHR 0x5C, CHR ''x'', digit_char (of_char c div 16), digit_char (of_char c mod 16)])"

text \<open>
  \<^verbatim>\<open>repr\<close> of a string: double quotes when the string holds a single quote and no double
  quote, single quotes otherwise.
\<close>

definition py_repr_str :: "string \<Rightarrow> string" where
  "py_repr_str s =
     (let q = (if CHR 0x27 \<in> set s \<and> CHR 0x22 \<notin> set s then CHR 0x22 else CHR 0x27)
      in q # concat (map (py_repr_char q) s) @ [q])"

text \<open>\<^verbatim>\<open>sep.join(xs)\<close>\<close>

fun str_join :: "string \<Rightarrow> string list \<Rightarrow> string" where
  "str_join sep [] = []"
| "str_join sep [x] = x"
| "str_join sep (x # y # ys) = x @ sep @ str_join sep (y # ys)"

fun py_repr :: "pyval \<Rightarrow> string" and py_reprs :: "pyval list \<Rightarrow> string list"
  and py_repr_items :: "(string \<times> pyval) list \<Rightarrow> string list" where
  "py_repr PNone = ''None''"
| "py_repr (PBool b) = (if b then ''True'' else ''False'')"
| "py_repr (PInt i) = int_str i"
| "py_repr (PFloat f) = float_repr f"
| "py_repr (PStr s) = py_repr_str s"
| "py_repr (PList xs) = ''['' @ str_join '', '' (py_reprs xs) @ '']''"
| "py_repr (PTuple xs) =
     (if length xs = 1 then ''('' @ str_join '', '' (py_reprs xs) @ '',)''
      else ''('' @ str_join '', '' (py_reprs xs) @ '')'')"
| "py_repr (PDict d) = ''{'' @ str_join '', '' (py_repr_items d) @ ''}''"
| "py_reprs [] = []"
| "py_reprs (x # xs) = py_repr x # py_reprs xs"
| "py_repr_items [] = []"
| "py_repr_items (kv # d) = (py_repr_str (fst kv) @ '': '' @ py_repr (snd kv)) # py_repr_items d"

text \<open>\<^verbatim>\<open>str(v)\<close>, which is also what \<^verbatim>\<open>'{}'.format(v)\<close> inserts.\<close>

fun py_str :: "pyval \<Rightarrow> string" where
  "py_str (PStr s) = s"
| "py_str v = py_repr v"

definition py_lower_char :: "char \<Rightarrow> char" where
  "py_lower_char c =
     (let n = (of_char c :: nat)
      in if (65 \<le> n \<and> n \<le> 90) \<or> (192 \<le> n \<and> n \<le> 222 \<and> n \<noteq> 215) then char_of (n + 32) else c)"

text \<open>\<^verbatim>\<open>s.lower()\<close>\<close>

definition py_lower :: "string \<Rightarrow> string" where
  "py_lower s = map py_lower_char s"

subsection \<open>\<^verbatim>\<open>int()\<close>\<close>

text \<open>
  The blanks that \<^verbatim>\<open>int()\<close> skips around the digits of a string: the six blanks of ASCII
  and, of the code points from 128 to 255, the next-line character and the no-break space.
  The separators with the codes 28 to 31 are not skipped.
\<close>

definition py_isspace :: "char \<Rightarrow> bool" where
  "py_isspace c = ((of_char c :: nat) \<in> {9, 10, 11, 12, 13, 32, 133, 160})"

definition py_strip :: "string \<Rightarrow> string" where
  "py_strip s = rev (dropWhile py_isspace (rev (dropWhile py_isspace s)))"

definition is_digit :: "char \<Rightarrow> bool" where
  "is_digit c = (48 \<le> (of_char c :: nat) \<and> (of_char c :: nat) \<le> 57)"

text \<open>
  The digits of an integer literal as \<^verbatim>\<open>int()\<close> reads them: decimal digits, with single
  underscores allowed between two digits. The Boolean says whether the character before
  was a digit.
\<close>

fun digits_value :: "nat \<Rightarrow> bool \<Rightarrow> string \<Rightarrow> nat option" where
  "digits_value acc prev [] = (if prev then Some acc else None)"
| "digits_value acc prev (c # cs) =
     (if is_digit c then digits_value (10 * acc + (of_char c - 48)) True cs
      else if c = CHR ''_'' \<and> prev \<and> cs \<noteq> [] \<and> is_digit (hd cs) then digits_value acc False cs
      else None)"

definition int_of_str :: "string \<Rightarrow> error + int" where
  "int_of_str s =
     (let t = py_strip s;
          neg = (t \<noteq> [] \<and> hd t = CHR ''-'');
          body = (if t \<noteq> [] \<and> (hd t = CHR ''-'' \<or> hd t = CHR ''+'') then tl t else t)
      in if 4300 < length (filter is_digit body) then Inl ValueError
         else case digits_value 0 False body of
                None \<Rightarrow> Inl ValueError
              | Some n \<Rightarrow> Inr (if neg then - int n else int n))"

fun py_int :: "pyval \<Rightarrow> error + int" where
  "py_int (PBool b) = Inr (if b then 1 else 0)"
| "py_int (PInt i) = Inr i"
| "py_int (PFloat f) =
     (case float_trunc f of
        Some i \<Rightarrow> Inr i
      | None \<Rightarrow> Inl (if float_repr f = ''nan'' then ValueError else OverflowError))"
| "py_int (PStr s) = int_of_str s"
| "py_int v = Inl TypeError"

subsection \<open>Containers\<close>

text \<open>\<^verbatim>\<open>k in c\<close> for a string \<open>k\<close>: a key of a dictionary, an element of a list or tuple, a
  substring of a string; the other values are not containers.\<close>

fun py_contains :: "string \<Rightarrow> pyval \<Rightarrow> error + bool" where
  "py_contains k (PDict d) = Inr (k \<in> set (map fst d))"
| "py_contains k (PList xs) = Inr (PStr k \<in> set xs)"
| "py_contains k (PTuple xs) = Inr (PStr k \<in> set xs)"
| "py_contains k (PStr s) = Inr (sublist k s)"
| "py_contains k v = Inl TypeError"

text \<open>\<^verbatim>\<open>c[k]\<close> for a string \<open>k\<close>.\<close>

fun py_getitem :: "pyval \<Rightarrow> string \<Rightarrow> error + pyval" where
  "py_getitem (PDict d) k = (case map_of d k of None \<Rightarrow> Inl KeyError | Some v \<Rightarrow> Inr v)"
| "py_getitem v k = Inl TypeError"

text \<open>\<^verbatim>\<open>c[i]\<close> for one of the literal indices 0, 1, 2. A dictionary has string keys only, so
  the integer is a missing key.\<close>

fun py_index :: "pyval \<Rightarrow> nat \<Rightarrow> error + pyval" where
  "py_index (PList xs) i = (if i < length xs then Inr (xs ! i) else Inl IndexError)"
| "py_index (PTuple xs) i = (if i < length xs then Inr (xs ! i) else Inl IndexError)"
| "py_index (PStr s) i = (if i < length s then Inr (PStr [s ! i]) else Inl IndexError)"
| "py_index (PDict d) i = Inl KeyError"
| "py_index v i = Inl TypeError"

text \<open>\<^verbatim>\<open>c.get(k, default)\<close>; \<^verbatim>\<open>c.get(k)\<close> is \<^verbatim>\<open>c.get(k, None)\<close>.\<close>

fun py_get :: "pyval \<Rightarrow> string \<Rightarrow> pyval \<Rightarrow> error + pyval" where
  "py_get (PDict d) k dflt = Inr (case map_of d k of None \<Rightarrow> dflt | Some v \<Rightarrow> v)"
| "py_get v k dflt = Inl AttributeError"

text \<open>\<^verbatim>\<open>c.items()\<close>\<close>

fun py_items :: "pyval \<Rightarrow> error + (string \<times> pyval) list" where
  "py_items (PDict d) = Inr d"
| "py_items v = Inl AttributeError"

text \<open>Sequencing of computations that may raise.\<close>

definition bind_err :: "error + 'a \<Rightarrow> ('a \<Rightarrow> error + 'b) \<Rightarrow> error + 'b" where
  "bind_err m f = (case m of Inl e \<Rightarrow> Inl e | Inr x \<Rightarrow> f x)"

section \<open>JSON documents\<close>

text \<open>
  \<^verbatim>\<open>json.dump\<close> and \<^verbatim>\<open>json.load\<close> are library code. They are modelled on the document
  they write and read: \<^verbatim>\<open>json.dump\<close> turns a dictionary into an object (keys in
  insertion order), a list or a tuple into an array, and the scalars into the JSON
  scalars (an integer and a float stay apart: a float is always written with a point, an
  exponent, or as \<^verbatim>\<open>NaN\<close>/\<^verbatim>\<open>Infinity\<close>); \<^verbatim>\<open>json.load\<close> builds a dictionary from an object
  (a repeated name keeps its first place and its last value), a list from an array.
\<close>

datatype json =
  JNull
  | JBool bool
  | JInt int
  | JFloat pyfloat
  | JString string
  | JArray "json list"
  | JObject "(string \<times> json) list"

fun json_dump :: "pyval \<Rightarrow> json" and json_dump_list :: "pyval list \<Rightarrow> json list"
  and json_dump_items :: "(string \<times> pyval) list \<Rightarrow> (string \<times> json) list" where
  "json_dump PNone = JNull"
| "json_dump (PBool b) = JBool b"
| "json_dump (PInt i) = JInt i"
| "json_dump (PFloat f) = JFloat f"
| "json_dump (PStr s) = JString s"
| "json_dump (PList xs) = JArray (json_dump_list xs)"
| "json_dump (PTuple xs) = JArray (json_dump_list xs)"
| "json_dump (PDict d) = JObject (json_dump_items d)"
| "json_dump_list [] = []"
| "json_dump_list (x # xs) = json_dump x # json_dump_list xs"
| "json_dump_items [] = []"
| "json_dump_items (kv # d) = (fst kv, json_dump (snd kv)) # json_dump_items d"

text \<open>\<^verbatim>\<open>d[k] = v\<close> for each pair of an object in turn, from the empty dictionary.\<close>

fun dict_of_pairs :: "(string \<times> pyval) list \<Rightarrow> (string \<times> pyval) list \<Rightarrow> (string \<times> pyval) list" where
  "dict_of_pairs d [] = d"
| "dict_of_pairs d (kv # kvs) = dict_of_pairs (AList.update (fst kv) (snd kv) d) kvs"

fun json_load :: "json \<Rightarrow> pyval" and json_load_list :: "json list \<Rightarrow> pyval list"
  and json_load_items :: "(string \<times> json) list \<Rightarrow> (string \<times> pyval) list" where
  "json_load JNull = PNone"
| "json_load (JBool b) = PBool b"
| "json_load (JInt i) = PInt i"
| "json_load (JFloat f) = PFloat f"
| "json_load (JString s) = PStr s"
| "json_load (JArray xs) = PList (json_load_list xs)"
| "json_load (JObject d) = PDict (dict_of_pairs [] (json_load_items d))"
| "json_load_list [] = []"
| "json_load_list (x # xs) = json_load x # json_load_list xs"
| "json_load_items [] = []"
| "json_load_items (kv # d) = (fst kv, json_load (snd kv)) # json_load_items d"

section \<open>The file system\<close>

text \<open>
  A file holds a JSON document or some other text, on which \<^verbatim>\<open>json.load\<close> raises.
  The file system maps a path, as the list of its components, to a directory or a
  file; the root is a directory. Paths follow \<^verbatim>\<open>posixpath\<close>: the separator is the
  slash, empty components and \<^verbatim>\<open>.\<close> are dropped, \<^verbatim>\<open>..\<close> steps back; a relative path is
  read from the root. There are no links and no permissions.
\<close>

datatype file_data = JsonText json | OtherText string

datatype node = Dir | File file_data

type_synonym filesystem = "(string list \<times> node) list"

fun split_on :: "char \<Rightarrow> string \<Rightarrow> string list" where
  "split_on c [] = [[]]"
| "split_on c (x # xs) =
     (if x = c then [] # split_on c xs
      else (case split_on c xs of [] \<Rightarrow> [[x]] | y # ys \<Rightarrow> (x # y) # ys))"

fun norm_components :: "string list \<Rightarrow> string list \<Rightarrow> string list" where
  "norm_components acc [] = acc"
| "norm_components acc (c # cs) =
     (if c = [] \<or> c = ''.'' then norm_components acc cs
      else if c = ''..'' then norm_components (butlast acc) cs
      else norm_components (acc @ [c]) cs)"

definition path_components :: "string \<Rightarrow> string list" where
  "path_components p = norm_components [] (split_on CHR ''/'' p)"

text \<open>\<^verbatim>\<open>os.path.join(a, b)\<close>\<close>

definition os_path_join :: "string \<Rightarrow> string \<Rightarrow> string" where
  "os_path_join a b =
     (if b \<noteq> [] \<and> hd b = CHR ''/'' then b
      else if a = [] \<or> last a = CHR ''/'' then a @ b
      else a @ ''/'' @ b)"

definition node_at :: "filesystem \<Rightarrow> string list \<Rightarrow> node option" where
  "node_at fs cs = (if cs = [] then Some Dir else map_of fs cs)"

fun is_file :: "node option \<Rightarrow> bool" where
  "is_file (Some (File d)) = True"
| "is_file n = False"

definition os_path_isdir :: "filesystem \<Rightarrow> string \<Rightarrow> bool" where
  "os_path_isdir fs p = (node_at fs (path_components p) = Some Dir)"

definition os_path_exists :: "filesystem \<Rightarrow> string \<Rightarrow> bool" where
  "os_path_exists fs p = (node_at fs (path_components p) \<noteq> None)"

text \<open>\<^verbatim>\<open>os.listdir(p)\<close>: the names of the entries of the directory, files and directories alike.\<close>

definition os_listdir :: "filesystem \<Rightarrow> string \<Rightarrow> error + string list" where
  "os_listdir fs p =
     (if os_path_isdir fs p
      then Inr (map (\<lambda>e. last (fst e))
                  (filter (\<lambda>e. fst e \<noteq> [] \<and> butlast (fst e) = path_components p) fs))
      else Inl OSError)"

text \<open>\<^verbatim>\<open>os.makedirs(p)\<close>: the directory and its missing ancestors; it raises when the
  path exists or when an ancestor is a file.\<close>

definition os_makedirs :: "filesystem \<Rightarrow> string \<Rightarrow> error + filesystem" where
  "os_makedirs fs p =
     (let cs = path_components p;
          ancestors = map (\<lambda>n. take n cs) [1 ..< Suc (length cs)]
      in if node_at fs cs \<noteq> None then Inl OSError
         else if list_ex (\<lambda>a. is_file (node_at fs a)) ancestors then Inl OSError
         else Inr (fs @ map (\<lambda>a. (a, Dir)) (filter (\<lambda>a. node_at fs a = None) ancestors)))"

text \<open>\<^verbatim>\<open>open(p, 'w')\<close>, the write of the whole document, and the close. An existing
  file is replaced; a new file needs its directory; a directory cannot be opened.\<close>

definition write_file :: "filesystem \<Rightarrow> string \<Rightarrow> file_data \<Rightarrow> error + filesystem" where
  "write_file fs p d =
     (let cs = path_components p
      in case node_at fs cs of
           Some (File old) \<Rightarrow> Inr (AList.update cs (File d) fs)
         | Some Dir \<Rightarrow> Inl OSError
         | None \<Rightarrow>
             if node_at fs (butlast cs) = Some Dir then Inr (AList.update cs (File d) fs)
             else Inl OSError)"

text \<open>\<^verbatim>\<open>open(p, 'r')\<close> and the read of the whole file.\<close>

definition read_file :: "filesystem \<Rightarrow> string \<Rightarrow> error + file_data" where
  "read_file fs p =
     (case node_at fs (path_components p) of
        Some (File d) \<Rightarrow> Inr d
      | _ \<Rightarrow> Inl OSError)"

text \<open>\<^verbatim>\<open>json.load(f)\<close> on the text of a file.\<close>

fun json_load_file :: "file_data \<Rightarrow> error + pyval" where
  "json_load_file (JsonText j) = Inr (json_load j)"
| "json_load_file (OtherText t) = Inl JSONDecodeError"

section \<open>The emitter: \<^verbatim>\<open>settings_to_mel\<close>\<close>

text \<open>The list \<^verbatim>\<open>mel_commands\<close> as the function first builds it.\<close>

definition mel_header :: "string list" where
  \<open>mel_header =
    [''// Viewport Settings - Generated by viewportCapture'',
     ''global proc viewportCaptureApply()'',
     ''{'',
     ''    string $panel = `getPanel -withFocus`;'',
     ''    if (`getPanel -typeOf $panel` != "modelPanel")'',
     ''    {'',
     ''        string $modelPanels[] = `getPanel -type "modelPanel"`;'',
     ''        $panel = "";'',
     ''        if (size($modelPanels) > 0)'',
     ''        {'',
     ''            $panel = $modelPanels[0];'',
     ''        }'',
     ''        if ($panel == "")'',
     ''        {'',
     ''            error "No valid modelPanel found.'' @ [CHR 0x5C] @ ''nPlease open a viewport first.";'',
     ''            return;'',
     ''        }'',
     ''    }'',
     '''',
     ''    // Set Viewport 2.0 renderer'',
     ''    modelEditor -e -rendererName "vp2Renderer" $panel;'',
     '''',
     ''    string $camera = `modelEditor -q -camera $panel`;'',
     ''    if ($camera != "")'',
     ''    {'',
     ''        // Camera Gate Settings'']\<close>

text \<open>
  The recurring step \<^verbatim>\<open>if k in c: mel_commands.append(line(c[k]))\<close>, where the line may
  itself raise (an index out of range).
\<close>

definition append_if_in ::
  "string \<Rightarrow> pyval \<Rightarrow> (pyval \<Rightarrow> error + string) \<Rightarrow> string list \<Rightarrow> error + string list" where
  "append_if_in k c line mel_commands =
     bind_err (py_contains k c) (\<lambda>present.
       if present
       then bind_err (py_getitem c k) (\<lambda>v.
            bind_err (line v) (\<lambda>l. Inr (mel_commands @ [l])))
       else Inr mel_commands)"

text \<open>The step \<^verbatim>\<open>if section in settings: body(settings[section])\<close>.\<close>

definition if_section ::
  "string \<Rightarrow> pyval \<Rightarrow> (pyval \<Rightarrow> string list \<Rightarrow> error + string list) \<Rightarrow> string list
    \<Rightarrow> error + string list" where
  "if_section k settings body mel_commands =
     bind_err (py_contains k settings) (\<lambda>present.
       if present
       then bind_err (py_getitem settings k) (\<lambda>section. body section mel_commands)
       else Inr mel_commands)"

text \<open>Lines 402 to 410: the camera gate.\<close>

definition add_camera_gate :: "pyval \<Rightarrow> string list \<Rightarrow> error + string list" where
  "add_camera_gate settings =
     if_section ''camera_gate'' settings (\<lambda>camera_gate mel_commands.
       bind_err (append_if_in ''displayFilmGate'' camera_gate
          (\<lambda>v. Inr (''        camera -e -displayFilmGate '' @ py_lower (py_str v) @ '' $camera;''))
          mel_commands) (\<lambda>mel_commands.
       bind_err (append_if_in ''displayResolution'' camera_gate
          (\<lambda>v. Inr (''        camera -e -displayResolution '' @ py_lower (py_str v) @ '' $camera;''))
          mel_commands) (\<lambda>mel_commands.
       append_if_in ''overscan'' camera_gate
          (\<lambda>v. Inr (''        camera -e -overscan '' @ py_str v @ '' $camera;''))
          mel_commands)))"

text \<open>Lines 412 to 416: the camera mask.\<close>

definition add_camera_mask :: "pyval \<Rightarrow> string list \<Rightarrow> error + string list" where
  "add_camera_mask settings =
     if_section ''camera_mask'' settings (\<lambda>camera_mask mel_commands.
       append_if_in ''displayGateMask'' camera_mask
          (\<lambda>v. Inr (''        camera -e -displayGateMask '' @ py_lower (py_str v) @ '' $camera;''))
          mel_commands)"

text \<open>Lines 418 to 422: the camera film fit.\<close>

definition add_camera_filmfit :: "pyval \<Rightarrow> string list \<Rightarrow> error + string list" where
  "add_camera_filmfit settings =
     if_section ''camera_filmfit'' settings (\<lambda>camera_filmfit mel_commands.
       append_if_in ''filmFit'' camera_filmfit
          (\<lambda>v. Inr (''        camera -e -filmFit '' @ py_str v @ '' $camera;''))
          mel_commands)"

text \<open>Lines 427 to 436: the GPU cache block, with
  \<^verbatim>\<open>settings.get("plugin_display", {}).get("gpuCache", False)\<close>.\<close>

definition gpu_cache_block :: "string \<Rightarrow> string list" where
  \<open>gpu_cache_block flag =
    [''    // GPU Cache Settings'',
     ''    if (!`pluginInfo -q -loaded "gpuCache"`)'',
     ''    {'',
     ''        loadPlugin "gpuCache";'',
     ''    }'',
     ''    modelEditor -e -pluginObjects gpuCacheDisplayFilter '' @ flag @ '' $panel;'',
     '''']\<close>

definition add_gpu_cache :: "pyval \<Rightarrow> string list \<Rightarrow> error + string list" where
  "add_gpu_cache settings mel_commands =
     bind_err (py_get settings ''plugin_display'' (PDict [])) (\<lambda>plugin_display.
     bind_err (py_get plugin_display ''gpuCache'' (PBool False)) (\<lambda>v.
       Inr (mel_commands @ gpu_cache_block (py_lower (py_str v)))))"

text \<open>Lines 441 to 460: the body of the loop over the display items.\<close>

definition display_item :: "string \<Rightarrow> pyval \<Rightarrow> string list \<Rightarrow> error + string list" where
  \<open>display_item attr value mel_commands =
     (if attr = ''hwFog'' then
        bind_err (py_int value) (\<lambda>n.
          Inr (mel_commands @
            [''    modelEditor -e -hwFog '' @ py_lower (py_str value) @ '' $panel;'',
             ''    if (!`objExists "hardwareRenderingGlobals"`) {'',
             ''        createNode "hardwareRenderingGlobals";'',
             ''    }'',
             ''    setAttr "hardwareRenderingGlobals.hwFogEnable" '' @ int_str n @ '';'']))
      else if attr = ''fogging'' then
        Inr (mel_commands @ [''    modelEditor -e -fogging '' @ py_lower (py_str value) @ '' $panel;''])
      else if attr \<in> set [''displayLights'', ''displayAppearance''] then
        Inr (mel_commands @ [''    modelEditor -e -'' @ attr @ '' "'' @ py_str value @ ''" $panel;''])
      else if attr = ''twoSidedLighting'' then
        Inr (mel_commands @ [''    modelEditor -e -twoSidedLighting '' @ py_lower (py_str value) @ '' $panel;''])
      else if attr = ''shadows'' then
        Inr (mel_commands @ [''    modelEditor -e -shadows '' @ py_lower (py_str value) @ '' $panel;''])
      else if attr = ''jointXray'' then
        Inr (mel_commands @ [''    modelEditor -e -jointXray '' @ py_lower (py_str value) @ '' $panel;''])
      else if attr = ''activeComponentsXray'' then
        Inr (mel_commands @ [''    modelEditor -e -activeComponentsXray '' @ py_lower (py_str value) @ '' $panel;''])
      else
        Inr (mel_commands @ [''    modelEditor -e -'' @ attr @ '' '' @ py_lower (py_str value) @ '' $panel;'']))\<close>

text \<open>A \<^verbatim>\<open>for attr, value in d.items()\<close> loop whose body appends to \<^verbatim>\<open>mel_commands\<close>.\<close>

fun for_items ::
  "(string \<Rightarrow> pyval \<Rightarrow> string list \<Rightarrow> error + string list) \<Rightarrow> (string \<times> pyval) list
    \<Rightarrow> string list \<Rightarrow> error + string list" where
  "for_items body [] mel_commands = Inr mel_commands"
| "for_items body (kv # d) mel_commands =
     bind_err (body (fst kv) (snd kv) mel_commands) (for_items body d)"

text \<open>Lines 438 to 460: the display settings; \<^verbatim>\<open>settings['display']\<close> is read without a test.\<close>

definition add_display :: "pyval \<Rightarrow> string list \<Rightarrow> error + string list" where
  "add_display settings mel_commands =
     bind_err (py_getitem settings ''display'') (\<lambda>display.
     bind_err (py_items display) (\<lambda>items.
       for_items display_item items (mel_commands @ [''    // Display Settings''])))"

text \<open>\<^verbatim>\<open>'{0} {1} {2}'.format(c[0], c[1], c[2])\<close>\<close>

definition format_triple :: "pyval \<Rightarrow> error + string" where
  "format_triple c =
     bind_err (py_index c 0) (\<lambda>x.
     bind_err (py_index c 1) (\<lambda>y.
     bind_err (py_index c 2) (\<lambda>z.
       Inr (py_str x @ '' '' @ py_str y @ '' '' @ py_str z))))"

text \<open>Lines 462 to 480: the background.\<close>

definition add_background :: "pyval \<Rightarrow> string list \<Rightarrow> error + string list" where
  \<open>add_background settings =
     if_section ''background'' settings (\<lambda>bg mel_commands.
       bind_err (append_if_in ''gradient'' bg
          (\<lambda>v. Inr (''    displayPref -displayGradient '' @ py_lower (py_str v) @ '';''))
          (mel_commands @ ['''', ''    // Background Settings''])) (\<lambda>mel_commands.
       bind_err (append_if_in ''topColor'' bg
          (\<lambda>top_color. bind_err (format_triple top_color) (\<lambda>t.
             Inr (''    displayRGBColor "backgroundTop" '' @ t @ '';'')))
          mel_commands) (\<lambda>mel_commands.
       bind_err (append_if_in ''color'' bg
          (\<lambda>color. bind_err (format_triple color) (\<lambda>t.
             Inr (''    displayRGBColor "background" '' @ t @ '';'')))
          mel_commands) (\<lambda>mel_commands.
       bind_err (py_get bg ''gradient'' PNone) (\<lambda>gradient.
         if py_truthy gradient
         then append_if_in ''bottomColor'' bg
                (\<lambda>bottom_color. bind_err (format_triple bottom_color) (\<lambda>t.
                   Inr (''    displayRGBColor "backgroundBottom" '' @ t @ '';'')))
                mel_commands
         else Inr mel_commands)))))\<close>

text \<open>Lines 491 to 497: the body of the loop over the hardware items.\<close>

definition hardware2_item :: "string \<Rightarrow> pyval \<Rightarrow> string list \<Rightarrow> error + string list" where
  \<open>hardware2_item attr value0 mel_commands =
     bind_err (if isinstance_bool value0 then bind_err (py_int value0) (\<lambda>n. Inr (PInt n))
               else Inr value0) (\<lambda>value.
       if isinstance_list_tuple value
       then bind_err (format_triple value) (\<lambda>t.
              Inr (mel_commands @
                [''    setAttr "hardwareRenderingGlobals.'' @ attr @ ''" -type double3 '' @ t @ '';'']))
       else Inr (mel_commands @
                [''    setAttr "hardwareRenderingGlobals.'' @ attr @ ''" '' @ py_str value @ '';'']))\<close>

text \<open>Lines 484 to 488: the lines that open the hardware settings.\<close>

definition hardware2_header :: "string list" where
  \<open>hardware2_header =
    ['''',
     ''    // Hardware 2.0 Settings'',
     ''    if (!`objExists "hardwareRenderingGlobals"`) {'',
     ''        createNode "hardwareRenderingGlobals";'',
     ''    }'']\<close>

text \<open>Lines 482 to 497: the hardware settings.\<close>

definition add_hardware2 :: "pyval \<Rightarrow> string list \<Rightarrow> error + string list" where
  "add_hardware2 settings =
     if_section ''hardware2'' settings (\<lambda>hardware2 mel_commands.
       bind_err (py_items hardware2) (\<lambda>items.
         for_items hardware2_item items (mel_commands @ hardware2_header)))"

text \<open>The list \<^verbatim>\<open>mel_commands\<close> at the \<^verbatim>\<open>return\<close> of line 500, for a snapshot that is not
  falsy.\<close>

definition mel_commands_of :: "pyval \<Rightarrow> error + string list" where
  "mel_commands_of settings =
     bind_err (add_camera_gate settings mel_header) (\<lambda>mel_commands.
     bind_err (add_camera_mask settings mel_commands) (\<lambda>mel_commands.
     bind_err (add_camera_filmfit settings mel_commands) (\<lambda>mel_commands.
     bind_err (add_gpu_cache settings (mel_commands @ [''    }'', ''''])) (\<lambda>mel_commands.
     bind_err (add_display settings mel_commands) (\<lambda>mel_commands.
     bind_err (add_background settings mel_commands) (\<lambda>mel_commands.
     bind_err (add_hardware2 settings mel_commands) (\<lambda>mel_commands.
       Inr (mel_commands @ [''}'', '''', ''viewportCaptureApply();'']))))))))"

section \<open>The tool and its host\<close>

text \<open>
  A status message is a plain text, or a text that ends with the text of an exception
  (\<^verbatim>\<open>"Error saving preset: {}".format(e)\<close>); the interpreter's wording of an exception is
  not modelled.
\<close>

datatype message = Msg string | MsgExc string error

text \<open>
  The commands of the host (\<^verbatim>\<open>maya.cmds\<close>) that capture issues. The host is a black box:
  given the commands issued so far and a command, it returns a value or raises.
\<close>

datatype call =
  GetPanelWithFocus
  | GetPanelTypeOf pyval
  | GetPanelType string
  | ModelEditorQuery pyval string
  | ModelEditorEdit pyval string pyval
  | Refresh
  | CameraQuery pyval string
  | ObjExists string
  | CreateNode string
  | SetAttr string pyval
  | DisplayPrefQuery string
  | DisplayRGBColorQuery string
  | GetAttr string

type_synonym host = "call list \<Rightarrow> call \<Rightarrow> error + pyval"

text \<open>
  The fields of the \<^verbatim>\<open>ViewportCapture\<close> object that change, with the parts of the host
  they stand for: \<open>result_field\<close> is the text of the scroll field, \<open>status_label\<close> the
  message of the status label, \<open>preset_list\<close> the items of the preset list,
  \<open>gpu_checkbox\<close> the value of the check box; \<open>user_app_dir\<close> is what
  \<^verbatim>\<open>cmds.internalVar(userAppDir=True)\<close> returns, \<open>disk\<close> the file system and \<open>host_log\<close>
  the host commands issued so far.
\<close>

record state =
  result_field :: string
  status_label :: message
  preset_list :: "string list"
  last_captured_settings :: pyval
  gpu_cache_enabled :: pyval
  gpu_checkbox :: pyval
  custom_preset_path :: string
  user_app_dir :: string
  disk :: filesystem
  host_log :: "call list"

text \<open>Line 55: the display attributes.\<close>

definition display_attrs :: "string list" where
  "display_attrs =
    [''nurbsCurves'', ''nurbsSurfaces'', ''polymeshes'', ''subdivSurfaces'',
     ''planes'', ''lights'', ''joints'', ''ikHandles'', ''deformers'',
     ''dynamics'', ''fluids'', ''hairSystems'', ''follicles'', ''nCloths'',
     ''nParticles'', ''nRigids'', ''dynamicConstraints'', ''locators'',
     ''manipulators'', ''grid'', ''handles'', ''pivots'', ''textures'',
     ''strokes'', ''selectionHiliteDisplay'', ''headsUpDisplay'',
     ''displayLights'', ''wireframeOnShaded'', ''wireframe'', ''xray'',
     ''backfaceCulling'', ''smoothWireframe'', ''displayTextures'',
     ''displayAppearance'', ''useDefaultMaterial'', ''hwFog'', ''fogging'',
     ''dimensions'', ''cv'', ''particleInstancers'', ''motionTrails'',
     ''cameras'', ''imagePlane'', ''hulls'', ''twoSidedLighting'', ''shadows'',
     ''jointXray'', ''activeComponentsXray'']"

text \<open>Line 71: the hardware attributes with their types.\<close>

datatype hw2_type = TBool | TInt | TFloat | TFloat3

definition hw2_attrs :: "(string \<times> hw2_type) list" where
  "hw2_attrs =
    [(''multiSampleEnable'', TBool),
     (''multiSampleCount'', TInt),
     (''ssaoEnable'', TBool),
     (''ssaoAmount'', TFloat),
     (''ssaoRadius'', TFloat),
     (''ssaoFilterRadius'', TFloat),
     (''motionBlurEnable'', TBool),
     (''motionBlurSampleCount'', TInt),
     (''motionBlurShutterOpenFraction'', TFloat),
     (''motionBlurShutterCloseFraction'', TFloat),
     (''transparencyAlgorithm'', TInt),
     (''transparencyQuality'', TFloat),
     (''transparencyShadowDepth'', TInt),
     (''lineAAEnable'', TBool),
     (''maxHardwareLines'', TInt),
     (''minimumPixelWidth'', TFloat),
     (''hwFogEnable'', TBool),
     (''hwFogMode'', TInt),
     (''hwFogStart'', TFloat),
     (''hwFogEnd'', TFloat),
     (''hwFogDensity'', TFloat),
     (''hwFogColor'', TFloat3),
     (''hwFogFalloff'', TInt),
     (''hwFogRatio'', TFloat),
     (''defaultLightIntensity'', TFloat),
     (''consolidateWorld'', TBool),
     (''maxHardwareLights'', TInt),
     (''transparentShadow'', TBool),
     (''alphaCutPrepass'', TBool)]"

subsection \<open>Programs with state and exceptions\<close>

text \<open>
  A method is a function from the state to an outcome (a value, or the exception that
  left the method) and the state at that point: what a method changed before it raised
  stays changed.
\<close>

type_synonym ('s, 'a) prog = "'s \<Rightarrow> (error + 'a) \<times> 's"

definition ret :: "'a \<Rightarrow> ('s, 'a) prog" where
  "ret x s = (Inr x, s)"

definition lift :: "error + 'a \<Rightarrow> ('s, 'a) prog" where
  "lift r s = (r, s)"

definition bnd :: "('s, 'a) prog \<Rightarrow> ('a \<Rightarrow> ('s, 'b) prog) \<Rightarrow> ('s, 'b) prog" where
  "bnd m f s = (case m s of (Inl e, s') \<Rightarrow> (Inl e, s') | (Inr x, s') \<Rightarrow> f x s')"

text \<open>\<^verbatim>\<open>try: m except Exception as e: h(e)\<close>\<close>

definition try_except :: "('s, 'a) prog \<Rightarrow> (error \<Rightarrow> ('s, 'a) prog) \<Rightarrow> ('s, 'a) prog" where
  "try_except m h s = (case m s of (Inl e, s') \<Rightarrow> h e s' | (Inr x, s') \<Rightarrow> (Inr x, s'))"

definition modify :: "('s \<Rightarrow> 's) \<Rightarrow> ('s, unit) prog" where
  "modify f s = (Inr (), f s)"

text \<open>A \<^verbatim>\<open>for x in xs\<close> loop.\<close>

fun for_each :: "'x list \<Rightarrow> ('x \<Rightarrow> ('s, unit) prog) \<Rightarrow> ('s, unit) prog" where
  "for_each [] body = ret ()"
| "for_each (x # xs) body = bnd (body x) (\<lambda>_. for_each xs body)"

text \<open>A host call whose outcome is given: it raises the exception, if there is one.\<close>

fun host_outcome :: "error option \<Rightarrow> ('s, unit) prog" where
  "host_outcome None = ret ()"
| "host_outcome (Some e) = lift (Inl e)"

text \<open>Line 118, \<^verbatim>\<open>update_status\<close>: the status label exists once the window is built.\<close>

definition update_status :: "message \<Rightarrow> (state, unit) prog" where
  "update_status message = modify (\<lambda>self. self\<lparr>status_label := message\<rparr>)"

text \<open>Line 368, \<^verbatim>\<open>settings_to_mel\<close>.\<close>

definition settings_to_mel :: "state \<Rightarrow> pyval \<Rightarrow> error + string" where
  "settings_to_mel self settings =
     (if \<not> py_truthy settings then Inr ''// No settings captured''
      else bind_err (mel_commands_of settings) (\<lambda>mel_commands.
             Inr (str_join [CHR 0x0A] mel_commands)))"

section \<open>The preset store\<close>

text \<open>Lines 507 and 508: the directory under the user directory of the host.\<close>

definition default_preset_dir :: "state \<Rightarrow> string" where
  "default_preset_dir self =
     (let maya_app_dir = user_app_dir self
      in os_path_join (os_path_join maya_app_dir ''viewportCapture'') ''presets'')"

text \<open>Line 502, \<^verbatim>\<open>get_preset_dir\<close>.\<close>

definition get_preset_dir :: "(state, string) prog" where
  "get_preset_dir self =
     (if custom_preset_path self \<noteq> [] \<and> os_path_isdir (disk self) (custom_preset_path self)
      then (Inr (custom_preset_path self), self)
      else
        let preset_dir = default_preset_dir self
        in if \<not> os_path_exists (disk self) preset_dir
           then (case os_makedirs (disk self) preset_dir of
                   Inl e \<Rightarrow> (Inl e, self)
                 | Inr d \<Rightarrow> (Inr preset_dir, self\<lparr>disk := d\<rparr>))
           else (Inr preset_dir, self))"

text \<open>\<^verbatim>\<open>f.endswith('.json')\<close> and \<^verbatim>\<open>f[:-5]\<close>.\<close>

definition endswith_json :: "string \<Rightarrow> bool" where
  "endswith_json f = suffix ''.json'' f"

definition strip5 :: "string \<Rightarrow> string" where
  "strip5 f = take (length f - 5) f"

text \<open>Line 624, \<^verbatim>\<open>refresh_preset_list\<close>: the list is emptied, then the sorted names are
  appended.\<close>

definition refresh_preset_list :: "(state, unit) prog" where
  "refresh_preset_list =
     bnd (modify (\<lambda>self. self\<lparr>preset_list := []\<rparr>)) (\<lambda>_.
     bnd get_preset_dir (\<lambda>preset_dir.
     bnd (\<lambda>self. (Inr (os_path_exists (disk self) preset_dir), self)) (\<lambda>exists.
       if exists
       then bnd (\<lambda>self. (os_listdir (disk self) preset_dir, self)) (\<lambda>names.
              let presets = map strip5 (filter endswith_json names)
              in if presets \<noteq> []
                 then modify (\<lambda>self. self\<lparr>preset_list := preset_list self @ sort presets\<rparr>)
                 else ret ())
       else ret ())))"

text \<open>
  Line 526, \<^verbatim>\<open>save_preset\<close>. The arguments are the answers of the user: the button of the
  name dialog, the text typed into it, and the button of the overwrite dialog, which is
  asked only when the file exists.
\<close>

definition save_preset :: "string \<Rightarrow> string \<Rightarrow> string \<Rightarrow> (state, unit) prog" where
  "save_preset result text confirm_result self =
     (if \<not> py_truthy (last_captured_settings self)
      then update_status (Msg ''No settings to save'') self
      else if result = ''Save'' then
        let name = text in
        if name \<noteq> [] then
          bnd get_preset_dir (\<lambda>dir.
            let preset_path = os_path_join dir (name @ ''.json'') in
            bnd (\<lambda>self. (Inr (os_path_exists (disk self) preset_path), self)) (\<lambda>exists.
              if exists \<and> confirm_result = ''No''
              then update_status (Msg ''Save cancelled.'')
              else
                try_except
                  (bnd (\<lambda>self.
                          case write_file (disk self) preset_path
                                 (JsonText (json_dump (last_captured_settings self))) of
                            Inl e \<Rightarrow> (Inl e, self)
                          | Inr d \<Rightarrow> (Inr (), self\<lparr>disk := d\<rparr>)) (\<lambda>_.
                   bnd (update_status (Msg (''Preset '' @ [CHR 0x27] @ name @ [CHR 0x27] @ '' saved''))) (\<lambda>_.
                     refresh_preset_list)))
                  (\<lambda>e. update_status (MsgExc ''Error saving preset: '' e)))) self
        else (Inr (), self)
      else (Inr (), self))"

text \<open>
  Line 568, \<^verbatim>\<open>load_preset\<close>. The arguments are the selection of the preset list (empty
  when nothing is selected) and the outcomes of the two host calls that may raise after
  the snapshot is stored: the edit of the check box and \<^verbatim>\<open>mel.eval\<close>.
\<close>

definition load_preset :: "string list \<Rightarrow> error option \<Rightarrow> error option \<Rightarrow> (state, unit) prog" where
  "load_preset selected checkbox_exc eval_exc =
     (if selected = [] then update_status (Msg ''No preset selected'')
      else
        bnd get_preset_dir (\<lambda>dir.
          let preset_path = os_path_join dir (hd selected @ ''.json'') in
          try_except
            (bnd (\<lambda>self. (read_file (disk self) preset_path, self)) (\<lambda>f.
             bnd (lift (json_load_file f)) (\<lambda>settings.
             bnd (modify (\<lambda>self. self\<lparr>last_captured_settings := settings\<rparr>)) (\<lambda>_.
             bnd (lift (bind_err (py_get settings ''plugin_display'' (PDict []))
                          (\<lambda>plugin_display. py_get plugin_display ''gpuCache'' (PBool False)))) (\<lambda>g.
             bnd (modify (\<lambda>self. self\<lparr>gpu_cache_enabled := g\<rparr>)) (\<lambda>_.
             bnd (host_outcome checkbox_exc) (\<lambda>_.
             bnd (modify (\<lambda>self. self\<lparr>gpu_checkbox := gpu_cache_enabled self\<rparr>)) (\<lambda>_.
             bnd (\<lambda>self. (settings_to_mel self settings, self)) (\<lambda>mel_code.
             bnd (modify (\<lambda>self. self\<lparr>result_field := mel_code\<rparr>)) (\<lambda>_.
             bnd (host_outcome eval_exc) (\<lambda>_.
               update_status
                 (Msg (''Preset '' @ [CHR 0x27] @ hd selected @ [CHR 0x27] @ '' loaded and applied'')))))))))))))
            (\<lambda>e. update_status (MsgExc ''Error loading preset: '' e))))"

section \<open>Capture\<close>

text \<open>A host command: the host answers from the commands issued so far, and the
  command joins them.\<close>

definition host_call :: "host \<Rightarrow> call \<Rightarrow> (state, pyval) prog" where
  "host_call host c self = (host (host_log self) c, self\<lparr>host_log := host_log self @ [c]\<rparr>)"

text \<open>Inside \<^verbatim>\<open>capture_settings\<close> the dictionary \<^verbatim>\<open>settings\<close> is a local variable beside
  the state of the tool.\<close>

definition in_self :: "(state, 'a) prog \<Rightarrow> (pyval \<times> state, 'a) prog" where
  "in_self m s = (case m (snd s) of (r, self) \<Rightarrow> (r, (fst s, self)))"

text \<open>\<^verbatim>\<open>d[k] = v\<close>: a present key keeps its place, a new key goes last.\<close>

fun py_setitem :: "pyval \<Rightarrow> string \<Rightarrow> pyval \<Rightarrow> error + pyval" where
  "py_setitem (PDict d) k v = Inr (PDict (AList.update k v d))"
| "py_setitem c k v = Inl TypeError"

text \<open>\<^verbatim>\<open>settings[section][key] = v\<close>\<close>

definition set_setting :: "string \<Rightarrow> string \<Rightarrow> pyval \<Rightarrow> (pyval \<times> state, unit) prog" where
  "set_setting section key v s =
     (case bind_err (py_getitem (fst s) section) (\<lambda>d.
           bind_err (py_setitem d key v) (\<lambda>d'. py_setitem (fst s) section d')) of
        Inl e \<Rightarrow> (Inl e, s)
      | Inr settings \<Rightarrow> (Inr (), (settings, snd s)))"

text \<open>A host command whose value is not used.\<close>

definition host_do :: "host \<Rightarrow> call \<Rightarrow> (pyval \<times> state, unit) prog" where
  "host_do host c = bnd (in_self (host_call host c)) (\<lambda>_. ret ())"

text \<open>\<^verbatim>\<open>if not cmds.objExists('hardwareRenderingGlobals'): cmds.createNode(...)\<close>\<close>

definition ensure_globals :: "host \<Rightarrow> (pyval \<times> state, unit) prog" where
  "ensure_globals host =
     bnd (in_self (host_call host (ObjExists ''hardwareRenderingGlobals''))) (\<lambda>exists.
       if \<not> py_truthy exists then host_do host (CreateNode ''hardwareRenderingGlobals'')
       else ret ())"

definition warn :: "string \<Rightarrow> error \<Rightarrow> (pyval \<times> state, unit) prog" where
  "warn text e = in_self (update_status (MsgExc text e))"

text \<open>Lines 183 to 199: the three \<^verbatim>\<open>try\<close> blocks of the camera.\<close>

definition capture_camera :: "host \<Rightarrow> pyval \<Rightarrow> (pyval \<times> state, unit) prog" where
  "capture_camera host active_camera =
     bnd (try_except
            (bnd (in_self (host_call host (CameraQuery active_camera ''displayFilmGate''))) (\<lambda>v.
             bnd (set_setting ''camera_gate'' ''displayFilmGate'' v) (\<lambda>_.
             bnd (in_self (host_call host (CameraQuery active_camera ''displayResolution''))) (\<lambda>v.
             bnd (set_setting ''camera_gate'' ''displayResolution'' v) (\<lambda>_.
             bnd (in_self (host_call host (CameraQuery active_camera ''overscan''))) (\<lambda>v.
               set_setting ''camera_gate'' ''overscan'' v))))))
            (warn ''Warning: Could not capture camera gate settings: '')) (\<lambda>_.
     bnd (try_except
            (bnd (in_self (host_call host (CameraQuery active_camera ''displayGateMask''))) (\<lambda>v.
               set_setting ''camera_mask'' ''displayGateMask'' v))
            (warn ''Warning: Could not capture camera gate mask setting: '')) (\<lambda>_.
     try_except
       (bnd (in_self (host_call host (CameraQuery active_camera ''filmFit''))) (\<lambda>v.
          set_setting ''camera_filmfit'' ''filmFit'' v))
       (warn ''Warning: Could not capture camera film fit setting: '')))"

text \<open>
  Lines 203 to 224: the body of the loop over the display attributes. Every branch of
  the source asks the host for the flag named by the attribute; the branch of
  \<^verbatim>\<open>hwFog\<close> also stores the value at once and mirrors it onto the render globals.
\<close>

definition capture_display_attr :: "host \<Rightarrow> pyval \<Rightarrow> string \<Rightarrow> (pyval \<times> state, unit) prog" where
  "capture_display_attr host panel attr =
     try_except
       (bnd (in_self (host_call host (ModelEditorQuery panel attr))) (\<lambda>val.
        bnd (if attr = ''hwFog'' then
               bnd (set_setting ''display'' attr val) (\<lambda>_.
               bnd (ensure_globals host) (\<lambda>_.
                 host_do host (SetAttr ''hardwareRenderingGlobals.hwFogEnable'' val)))
             else ret ()) (\<lambda>_.
          set_setting ''display'' attr val)))
       (warn (''Warning: Could not capture '' @ attr @ '': ''))"

text \<open>Lines 227 to 233: the background.\<close>

definition capture_background :: "host \<Rightarrow> (pyval \<times> state, unit) prog" where
  "capture_background host =
     try_except
       (bnd (in_self (host_call host (DisplayPrefQuery ''displayGradient''))) (\<lambda>v.
        bnd (set_setting ''background'' ''gradient'' v) (\<lambda>_.
        bnd (in_self (host_call host (DisplayRGBColorQuery ''background''))) (\<lambda>v.
        bnd (set_setting ''background'' ''color'' v) (\<lambda>_.
        bnd (in_self (host_call host (DisplayRGBColorQuery ''backgroundTop''))) (\<lambda>v.
        bnd (set_setting ''background'' ''topColor'' v) (\<lambda>_.
        bnd (in_self (host_call host (DisplayRGBColorQuery ''backgroundBottom''))) (\<lambda>v.
          set_setting ''background'' ''bottomColor'' v))))))))
       (warn ''Warning: Could not capture background settings: '')"

text \<open>Lines 240 to 247: the body of the loop over the hardware attributes.\<close>

definition capture_hw2_attr :: "host \<Rightarrow> string \<times> hw2_type \<Rightarrow> (pyval \<times> state, unit) prog" where
  "capture_hw2_attr host item =
     (let attr = fst item; attr_type = snd item in
      try_except
        (bnd (in_self (host_call host (GetAttr (''hardwareRenderingGlobals.'' @ attr)))) (\<lambda>r.
         bnd (if attr_type = TFloat3 then lift (py_index r 0) else ret r) (\<lambda>val.
           set_setting ''hardware2'' attr val)))
        (warn (''Warning: Could not capture HW2 setting '' @ attr @ '': '')))"

text \<open>Line 171: the dictionary \<^verbatim>\<open>settings\<close> as it is created.\<close>

definition initial_settings :: "pyval \<Rightarrow> pyval \<Rightarrow> pyval" where
  "initial_settings panel gpu =
     PDict [(''panel'', panel),
            (''display'', PDict []),
            (''background'', PDict []),
            (''hardware2'', PDict []),
            (''plugin_display'', PDict [(''gpuCache'', gpu)]),
            (''camera_gate'', PDict []),
            (''camera_mask'', PDict []),
            (''camera_filmfit'', PDict [])]"

text \<open>Lines 182 to 247: what \<^verbatim>\<open>capture_settings\<close> does to \<^verbatim>\<open>settings\<close> before it returns it.
  The query of the camera (line 135, \<^verbatim>\<open>get_active_camera\<close>) and the check of the render
  globals (line 236) stand outside every \<^verbatim>\<open>try\<close>.\<close>

definition capture_body :: "host \<Rightarrow> pyval \<Rightarrow> (pyval \<times> state, unit) prog" where
  "capture_body host panel =
     bnd (in_self (host_call host (ModelEditorQuery panel ''camera''))) (\<lambda>active_camera.
     bnd (if py_truthy active_camera then capture_camera host active_camera else ret ()) (\<lambda>_.
     bnd (for_each display_attrs (capture_display_attr host panel)) (\<lambda>_.
     bnd (capture_background host) (\<lambda>_.
     bnd (ensure_globals host) (\<lambda>_.
       for_each hw2_attrs (capture_hw2_attr host))))))"

text \<open>Line 166, \<^verbatim>\<open>capture_settings\<close>.\<close>

definition capture_settings :: "host \<Rightarrow> pyval \<Rightarrow> (state, pyval) prog" where
  "capture_settings host panel self =
     (if \<not> py_truthy panel then (Inr PNone, self)
      else
        case capture_body host panel (initial_settings panel (gpu_cache_enabled self), self) of
          (Inl e, s) \<Rightarrow> (Inl e, snd s)
        | (Inr u, s) \<Rightarrow> (Inr (fst s), snd s))"

text \<open>\<^verbatim>\<open>for p in v\<close>: the elements of a list or tuple, the characters of a string, the
  keys of a dictionary.\<close>

fun py_iter :: "pyval \<Rightarrow> error + pyval list" where
  "py_iter (PList xs) = Inr xs"
| "py_iter (PTuple xs) = Inr xs"
| "py_iter (PStr s) = Inr (map (\<lambda>c. PStr [c]) s)"
| "py_iter (PDict d) = Inr (map (\<lambda>kv. PStr (fst kv)) d)"
| "py_iter v = Inl TypeError"

fun first_visible :: "host \<Rightarrow> pyval list \<Rightarrow> (state, pyval) prog" where
  "first_visible host [] = ret PNone"
| "first_visible host (p # ps) =
     bnd (host_call host (ModelEditorQuery p ''visible'')) (\<lambda>v.
       if py_truthy v then ret p else first_visible host ps)"

text \<open>Line 123, \<^verbatim>\<open>get_active_viewport\<close>.\<close>

definition get_active_viewport :: "host \<Rightarrow> (state, pyval) prog" where
  "get_active_viewport host =
     bnd (host_call host GetPanelWithFocus) (\<lambda>panel.
     bnd (if py_truthy panel
          then bnd (host_call host (GetPanelTypeOf panel)) (\<lambda>t. ret (t = PStr ''modelPanel''))
          else ret False) (\<lambda>focused.
       if focused then ret panel
       else bnd (host_call host (GetPanelType ''modelPanel'')) (\<lambda>panels.
            bnd (lift (py_iter panels)) (first_visible host))))"

text \<open>Line 138, \<^verbatim>\<open>ensure_viewport_20\<close>.\<close>

definition ensure_viewport_20 :: "host \<Rightarrow> pyval \<Rightarrow> (state, unit) prog" where
  "ensure_viewport_20 host panel =
     bnd (host_call host (ModelEditorQuery panel ''rendererName'')) (\<lambda>current_renderer.
     bnd (try_except
            (if current_renderer \<noteq> PStr ''vp2Renderer''
             then bnd (host_call host (ModelEditorEdit panel ''rendererName'' (PStr ''vp2Renderer'')))
                    (\<lambda>_. ret ())
             else ret ())
            (\<lambda>e. update_status (Msg ''Warning: Could not set Viewport 2.0 renderer''))) (\<lambda>_.
     bnd (host_call host Refresh) (\<lambda>_. ret ())))"

text \<open>Line 148, \<^verbatim>\<open>capture_viewport\<close>.\<close>

definition capture_viewport :: "host \<Rightarrow> (state, unit) prog" where
  "capture_viewport host =
     bnd (get_active_viewport host) (\<lambda>panel.
       if \<not> py_truthy panel then update_status (Msg ''No active viewport found'')
       else
         bnd (ensure_viewport_20 host panel) (\<lambda>_.
         bnd (capture_settings host panel) (\<lambda>settings.
           if py_truthy settings then
             bnd (modify (\<lambda>self. self\<lparr>last_captured_settings := settings\<rparr>)) (\<lambda>_.
             bnd (\<lambda>self. (settings_to_mel self settings, self)) (\<lambda>mel_code.
             bnd (modify (\<lambda>self. self\<lparr>result_field := mel_code\<rparr>)) (\<lambda>_.
               update_status (Msg (''Settings captured from '' @ py_str panel)))))
           else update_status (Msg ''Failed to capture settings''))))"

section \<open>Vocabulary of the statements\<close>

text \<open>
  The emitted script is the list \<^verbatim>\<open>mel_commands\<close> joined by newlines. The statements
  below speak of the elements of that list and recognise a statement by how it starts.
\<close>

definition is_camera_stmt :: "string \<Rightarrow> bool" where
  "is_camera_stmt l = prefix ''        camera -e -'' l"

definition is_display_stmt :: "string \<Rightarrow> bool" where
  \<open>is_display_stmt l =
     (prefix ''    modelEditor -e -'' l
      \<or> l = ''    if (!`objExists "hardwareRenderingGlobals"`) {''
      \<or> l = ''        createNode "hardwareRenderingGlobals";''
      \<or> l = ''    }''
      \<or> prefix ''    setAttr "hardwareRenderingGlobals.hwFogEnable" '' l)\<close>

definition is_background_stmt :: "string \<Rightarrow> bool" where
  \<open>is_background_stmt l =
     (l = '''' \<or> l = ''    // Background Settings''
      \<or> prefix ''    displayPref -displayGradient '' l
      \<or> prefix ''    displayRGBColor "background'' l)\<close>

definition is_hardware_stmt :: "string \<Rightarrow> bool" where
  \<open>is_hardware_stmt l =
     (l = '''' \<or> l = ''    // Hardware 2.0 Settings''
      \<or> l = ''    if (!`objExists "hardwareRenderingGlobals"`) {''
      \<or> l = ''        createNode "hardwareRenderingGlobals";''
      \<or> l = ''    }''
      \<or> prefix ''    setAttr "hardwareRenderingGlobals.'' l)\<close>

text \<open>The write of the base colour and the write of the bottom colour.\<close>

definition is_base_color_stmt :: "string \<Rightarrow> bool" where
  \<open>is_base_color_stmt l = prefix ''    displayRGBColor "background" '' l\<close>

definition is_bottom_color_stmt :: "string \<Rightarrow> bool" where
  \<open>is_bottom_color_stmt l = prefix ''    displayRGBColor "backgroundBottom" '' l\<close>

text \<open>The Boolean literals of MEL.\<close>

definition mel_bool :: "bool \<Rightarrow> string" where
  "mel_bool b = (if b then ''true'' else ''false'')"

text \<open>A list or tuple of three components, and the three components separated by spaces.\<close>

definition is_triple :: "pyval \<Rightarrow> pyval \<Rightarrow> pyval \<Rightarrow> pyval \<Rightarrow> bool" where
  "is_triple v x y z = (v = PList [x, y, z] \<or> v = PTuple [x, y, z])"

definition spaced :: "pyval \<Rightarrow> pyval \<Rightarrow> pyval \<Rightarrow> string" where
  "spaced x y z = py_str x @ '' '' @ py_str y @ '' '' @ py_str z"

text \<open>The line \<open>a\<close> occurs in the list, and the line \<open>b\<close> occurs after its first occurrence.\<close>

definition occurs_before :: "string \<Rightarrow> string \<Rightarrow> string list \<Rightarrow> bool" where
  "occurs_before a b ls = (b \<in> set (drop 1 (dropWhile (\<lambda>l. l \<noteq> a) ls)))"

text \<open>A conditional step appends one line when the key is present, none otherwise.\<close>

definition one_if :: "bool \<Rightarrow> (string \<Rightarrow> bool) \<Rightarrow> string list \<Rightarrow> bool" where
  "one_if c P new = (if c then \<exists>l. new = [l] \<and> P l else new = [])"

text \<open>The value with every tuple replaced by the list of its components.\<close>

fun tuples_to_lists :: "pyval \<Rightarrow> pyval" and tuples_to_lists_list :: "pyval list \<Rightarrow> pyval list"
  and tuples_to_lists_items :: "(string \<times> pyval) list \<Rightarrow> (string \<times> pyval) list" where
  "tuples_to_lists (PList xs) = PList (tuples_to_lists_list xs)"
| "tuples_to_lists (PTuple xs) = PList (tuples_to_lists_list xs)"
| "tuples_to_lists (PDict d) = PDict (tuples_to_lists_items d)"
| "tuples_to_lists PNone = PNone"
| "tuples_to_lists (PBool b) = PBool b"
| "tuples_to_lists (PInt i) = PInt i"
| "tuples_to_lists (PFloat f) = PFloat f"
| "tuples_to_lists (PStr s) = PStr s"
| "tuples_to_lists_list [] = []"
| "tuples_to_lists_list (x # xs) = tuples_to_lists x # tuples_to_lists_list xs"
| "tuples_to_lists_items [] = []"
| "tuples_to_lists_items (kv # d) = (fst kv, tuples_to_lists (snd kv)) # tuples_to_lists_items d"



subsection \<open>Concrete inputs\<close>

definition half :: pyval where
  "half = PFloat (PyFloat ''0.5'' (Some 0))"

text \<open>A snapshot as a capture produces it, cut down to a few fields; the fog colour is a
  tuple, as \<^verbatim>\<open>cmds.getAttr(...)[0]\<close> returns it.\<close>

definition example_snapshot :: pyval where
  "example_snapshot =
     PDict [(''panel'', PStr ''modelPanel4''),
            (''display'', PDict [(''wireframe'', PBool True), (''hwFog'', PBool False),
                                 (''displayLights'', PStr ''default'')]),
            (''background'', PDict [(''gradient'', PBool True),
                                    (''color'', PList [half, half, half]),
                                    (''topColor'', PList [half, half, half]),
                                    (''bottomColor'', PList [half, half, half])]),
            (''hardware2'', PDict [(''multiSampleEnable'', PBool True),
                                   (''multiSampleCount'', PInt 8),
                                   (''hwFogColor'', PTuple [half, half, half])]),
            (''plugin_display'', PDict [(''gpuCache'', PBool False)]),
            (''camera_gate'', PDict [(''displayFilmGate'', PBool False),
                                     (''displayResolution'', PBool True),
                                     (''overscan'', PFloat (PyFloat ''1.0'' (Some 1)))]),
            (''camera_mask'', PDict [(''displayGateMask'', PBool False)]),
            (''camera_filmfit'', PDict [(''filmFit'', PStr ''horizontal'')])]"

text \<open>The same background with the gradient off.\<close>

definition flat_snapshot :: pyval where
  "flat_snapshot =
     PDict [(''display'', PDict [(''wireframe'', PBool True)]),
            (''background'', PDict [(''gradient'', PBool False),
                                    (''color'', PList [half, half, half]),
                                    (''bottomColor'', PList [half, half, half])])]"

text \<open>A snapshot whose only Boolean is a hardware attribute.\<close>

definition hardware_bool_snapshot :: pyval where
  "hardware_bool_snapshot =
     PDict [(''display'', PDict []),
            (''hardware2'', PDict [(''multiSampleEnable'', PBool True)])]"

text \<open>A preset file that lacks the display section, as \<^verbatim>\<open>json.load\<close> returns it.\<close>

definition preset_without_display :: pyval where
  "preset_without_display = PDict [(''hardware2'', PDict [(''multiSampleEnable'', PBool True)])]"

definition presets_path :: "string list" where
  "presets_path = [''home'', ''user'', ''maya'', ''viewportCapture'', ''presets'']"

definition example_disk :: filesystem where
  "example_disk =
     [([''home''], Dir),
      ([''home'', ''user''], Dir),
      ([''home'', ''user'', ''maya''], Dir),
      ([''home'', ''user'', ''maya'', ''viewportCapture''], Dir),
      (presets_path, Dir),
      (presets_path @ [''shaded.json''], File (JsonText (JObject [(''display'', JObject [])]))),
      (presets_path @ [''blocking.json''], File (JsonText (JObject [(''display'', JObject [])]))),
      (presets_path @ [''notes.txt''], File (OtherText ''presets of the show''))]"

text \<open>The tool with a captured snapshot; the custom preset path of line 52 does not
  exist, so the presets live under the user directory.\<close>

definition example_state :: state where
  "example_state =
     \<lparr>result_field = ''// Capture a viewport to see settings'',
      status_label = Msg ''Ready'',
      preset_list = [''blocking'', ''shaded''],
      last_captured_settings = example_snapshot,
      gpu_cache_enabled = PBool False,
      gpu_checkbox = PBool False,
      custom_preset_path = ''M:/MyProjectData/MayaViewportPresets/'',
      user_app_dir = ''/home/user/maya/'',
      disk = example_disk,
      host_log = []\<rparr>"



text \<open>The same disk with a folder in the preset directory whose name ends in \<^verbatim>\<open>.json\<close>.\<close>

definition folder_disk :: filesystem where
  "folder_disk = example_disk @ [(presets_path @ [''zz.json''], Dir)]"

definition folder_state :: state where
  "folder_state = example_state\<lparr>disk := folder_disk\<rparr>"

section \<open>Basic facts\<close>

lemma bind_err_simps [simp]:
  "bind_err (Inl e) f = Inl e"
  "bind_err (Inr x) f = f x"
  by (simp_all add: bind_err_def)

lemma bind_err_Inr:
  "bind_err m f = Inr y \<longleftrightarrow> (\<exists>x. m = Inr x \<and> f x = Inr y)"
  by (cases m) simp_all

lemma py_lower_True: "py_lower ''True'' = ''true''"
  by code_simp

lemma py_lower_False: "py_lower ''False'' = ''false''"
  by code_simp

lemma py_lower_str_bool [simp]: "py_lower (py_str (PBool b)) = mel_bool b"
  by (simp add: mel_bool_def py_lower_True py_lower_False)

section \<open>The emitter on a missing snapshot\<close>

text \<open>
  Claim C7. Applied to \<^verbatim>\<open>None\<close>, the value of \<^verbatim>\<open>last_captured_settings\<close> before any capture
  or load, \<^verbatim>\<open>settings_to_mel\<close> returns the placeholder \<^verbatim>\<open>// No settings captured\<close>; it
  returns, it does not raise.
\<close>

theorem settings_to_mel_none:
  "settings_to_mel self PNone = Inr ''// No settings captured''"
  by (simp add: settings_to_mel_def)

theorem settings_to_mel_none_witness:
  "settings_to_mel example_state PNone = Inr ''// No settings captured''"
  by (rule settings_to_mel_none)

text \<open>
  Claim C4 says that \<^verbatim>\<open>settings_to_mel\<close> returns a string for every snapshot, also one that
  misses sections. The sections \<^verbatim>\<open>camera_gate\<close>, \<^verbatim>\<open>camera_mask\<close>, \<^verbatim>\<open>camera_filmfit\<close>,
  \<^verbatim>\<open>background\<close> and \<^verbatim>\<open>hardware2\<close> are tested with \<^verbatim>\<open>in\<close> and \<^verbatim>\<open>plugin_display\<close> is read with
  \<^verbatim>\<open>get\<close>, but line 440 reads \<^verbatim>\<open>settings['display']\<close> without a test: on a snapshot
  without that section the function raises \<^verbatim>\<open>KeyError\<close>.
\<close>

theorem settings_to_mel_missing_display:
  "settings_to_mel example_state preset_without_display = Inl KeyError"
  by code_simp

text \<open>
  Claim C8. The script depends on the snapshot alone: \<^verbatim>\<open>settings_to_mel\<close> reads nothing of
  the object it is a method of, nor of the host, so two calls on the same snapshot, in
  whatever states of the tool, give the same outcome.
\<close>

theorem settings_to_mel_deterministic:
  "settings_to_mel self s = settings_to_mel self' s"
  by (simp add: settings_to_mel_def)

theorem settings_to_mel_deterministic_witness:
  "settings_to_mel example_state example_snapshot =
   settings_to_mel (example_state\<lparr>last_captured_settings := PNone, disk := []\<rparr>) example_snapshot"
  by (rule settings_to_mel_deterministic)

section \<open>The order of the emitted statements\<close>

lemma py_getitem_contains:
  "py_getitem c k = Inr v \<Longrightarrow> py_contains k c = Inr True"
proof (cases c)
  case (PDict d)
  assume "py_getitem c k = Inr v"
  with PDict have "map_of d k = Some v" by (simp split: option.splits)
  then have "(k, v) \<in> set d" by (rule map_of_SomeD)
  then have "k \<in> fst ` set d" by force
  with PDict show ?thesis by simp
qed simp_all


lemma append_if_in_cases:
  "case append_if_in k c line xs of
     Inl e \<Rightarrow> True
   | Inr ys \<Rightarrow> (py_contains k c = Inr False \<and> ys = xs) \<or>
         (\<exists>v l. py_contains k c = Inr True \<and> py_getitem c k = Inr v \<and> line v = Inr l \<and> ys = xs @ [l])"
  by (auto simp: append_if_in_def bind_err_def split: sum.splits)

lemma append_if_in_Inr:
  assumes "append_if_in k c line xs = Inr ys"
  shows "(py_contains k c = Inr False \<and> ys = xs) \<or>
         (\<exists>v l. py_contains k c = Inr True \<and> py_getitem c k = Inr v \<and> line v = Inr l \<and> ys = xs @ [l])"
  using append_if_in_cases [where k=k and c=c and line=line and xs=xs] assms by simp

lemma if_section_Inr:
  assumes "if_section k s body xs = Inr ys"
  shows "(py_contains k s = Inr False \<and> ys = xs) \<or>
         (\<exists>sec. py_contains k s = Inr True \<and> py_getitem s k = Inr sec \<and> body sec xs = Inr ys)"
  using assms by (auto simp: if_section_def bind_err_Inr split: if_splits)

text \<open>A step extends the list by lines of one kind.\<close>

lemma append_if_in_adds:
  assumes "append_if_in k c line xs = Inr ys" and "\<And>v l. line v = Inr l \<Longrightarrow> P l"
  shows "\<exists>new. ys = xs @ new \<and> list_all P new"
  using append_if_in_Inr [OF assms(1)] assms(2) by auto

lemma adds_trans:
  assumes "\<exists>new. ys = xs @ new \<and> list_all P new" and "\<exists>new. zs = ys @ new \<and> list_all P new"
  shows "\<exists>new. zs = xs @ new \<and> list_all P new"
proof -
  from assms obtain n1 n2 where "ys = xs @ n1" "list_all P n1" "zs = ys @ n2" "list_all P n2"
    by blast
  then have "zs = xs @ (n1 @ n2) \<and> list_all P (n1 @ n2)" by simp
  then show ?thesis by blast
qed

lemma camera_line: "is_camera_stmt (''        camera -e -'' @ rest)"
  by (simp add: is_camera_stmt_def)

lemma add_camera_gate_adds:
  assumes "add_camera_gate s xs = Inr ys"
  shows "\<exists>new. ys = xs @ new \<and> list_all is_camera_stmt new"
proof -
  from if_section_Inr [OF assms [unfolded add_camera_gate_def]]
  show ?thesis
  proof (elim disjE conjE exE)
    assume "ys = xs" then show ?thesis by simp
  next
    fix sec
    assume "bind_err (append_if_in ''displayFilmGate'' sec
          (\<lambda>v. Inr (''        camera -e -displayFilmGate '' @ py_lower (py_str v) @ '' $camera;''))
          xs) (\<lambda>mel_commands.
       bind_err (append_if_in ''displayResolution'' sec
          (\<lambda>v. Inr (''        camera -e -displayResolution '' @ py_lower (py_str v) @ '' $camera;''))
          mel_commands) (\<lambda>mel_commands.
       append_if_in ''overscan'' sec
          (\<lambda>v. Inr (''        camera -e -overscan '' @ py_str v @ '' $camera;''))
          mel_commands)) = Inr ys"
    then obtain x1 x2 where
      1: "append_if_in ''displayFilmGate'' sec
          (\<lambda>v. Inr (''        camera -e -displayFilmGate '' @ py_lower (py_str v) @ '' $camera;'')) xs = Inr x1"
      and 2: "append_if_in ''displayResolution'' sec
          (\<lambda>v. Inr (''        camera -e -displayResolution '' @ py_lower (py_str v) @ '' $camera;'')) x1 = Inr x2"
      and 3: "append_if_in ''overscan'' sec
          (\<lambda>v. Inr (''        camera -e -overscan '' @ py_str v @ '' $camera;'')) x2 = Inr ys"
      by (auto simp: bind_err_Inr)
    have a: "\<exists>new. x1 = xs @ new \<and> list_all is_camera_stmt new"
      by (rule append_if_in_adds [OF 1]) (auto simp: is_camera_stmt_def)
    have b: "\<exists>new. x2 = x1 @ new \<and> list_all is_camera_stmt new"
      by (rule append_if_in_adds [OF 2]) (auto simp: is_camera_stmt_def)
    have c: "\<exists>new. ys = x2 @ new \<and> list_all is_camera_stmt new"
      by (rule append_if_in_adds [OF 3]) (auto simp: is_camera_stmt_def)
    from adds_trans [OF adds_trans [OF a b] c] show ?thesis .
  qed
qed

lemma add_camera_mask_adds:
  assumes "add_camera_mask s xs = Inr ys"
  shows "\<exists>new. ys = xs @ new \<and> list_all is_camera_stmt new"
proof -
  from if_section_Inr [OF assms [unfolded add_camera_mask_def]]
  show ?thesis
  proof (elim disjE conjE exE)
    assume "ys = xs" then show ?thesis by simp
  next
    fix sec
    assume 1: "append_if_in ''displayGateMask'' sec
          (\<lambda>v. Inr (''        camera -e -displayGateMask '' @ py_lower (py_str v) @ '' $camera;''))
          xs = Inr ys"
    show ?thesis
      by (rule append_if_in_adds [OF 1]) (auto simp: is_camera_stmt_def)
  qed
qed

lemma add_camera_filmfit_adds:
  assumes "add_camera_filmfit s xs = Inr ys"
  shows "\<exists>new. ys = xs @ new \<and> list_all is_camera_stmt new"
proof -
  from if_section_Inr [OF assms [unfolded add_camera_filmfit_def]]
  show ?thesis
  proof (elim disjE conjE exE)
    assume "ys = xs" then show ?thesis by simp
  next
    fix sec
    assume 1: "append_if_in ''filmFit'' sec
          (\<lambda>v. Inr (''        camera -e -filmFit '' @ py_str v @ '' $camera;''))
          xs = Inr ys"
    show ?thesis
      by (rule append_if_in_adds [OF 1]) (auto simp: is_camera_stmt_def)
  qed
qed

lemma add_gpu_cache_adds:
  assumes "add_gpu_cache s xs = Inr ys"
  shows "\<exists>flag. ys = xs @ gpu_cache_block flag"
  using assms by (auto simp: add_gpu_cache_def bind_err_Inr)

lemma display_item_cases:
  "case display_item attr v xs of Inl e \<Rightarrow> True
   | Inr ys \<Rightarrow> \<exists>new. ys = xs @ new \<and> list_all is_display_stmt new"
  by (simp add: display_item_def bind_err_def is_display_stmt_def split: sum.split)

lemma display_item_adds:
  assumes "display_item attr v xs = Inr ys"
  shows "\<exists>new. ys = xs @ new \<and> list_all is_display_stmt new"
  using display_item_cases [where attr=attr and v=v and xs=xs] assms by simp

lemma for_items_adds:
  assumes "for_items body d xs = Inr ys"
    and "\<And>k v xs ys. body k v xs = Inr ys \<Longrightarrow> \<exists>new. ys = xs @ new \<and> list_all P new"
  shows "\<exists>new. ys = xs @ new \<and> list_all P new"
  using assms(1)
proof (induction d arbitrary: xs)
  case Nil
  then show ?case by simp
next
  case (Cons kv d)
  from Cons.prems obtain zs where 1: "body (fst kv) (snd kv) xs = Inr zs"
    and 2: "for_items body d zs = Inr ys"
    by (auto simp: bind_err_Inr)
  from adds_trans [OF assms(2) [OF 1] Cons.IH [OF 2]] show ?case .
qed

lemma add_display_adds:
  assumes "add_display s xs = Inr ys"
  shows "\<exists>new. ys = xs @ ''    // Display Settings'' # new \<and> list_all is_display_stmt new"
proof -
  from assms obtain d where "for_items display_item d (xs @ [''    // Display Settings'']) = Inr ys"
    by (auto simp: add_display_def bind_err_Inr)
  from for_items_adds [OF this, of is_display_stmt] display_item_adds
  show ?thesis by auto
qed

lemma hardware2_item_cases:
  "case hardware2_item attr v xs of Inl e \<Rightarrow> True
   | Inr ys \<Rightarrow> \<exists>new. ys = xs @ new \<and> list_all is_hardware_stmt new"
  by (simp add: hardware2_item_def bind_err_def is_hardware_stmt_def split: sum.split)

lemma hardware2_item_adds:
  assumes "hardware2_item attr v xs = Inr ys"
  shows "\<exists>new. ys = xs @ new \<and> list_all is_hardware_stmt new"
  using hardware2_item_cases [where attr=attr and v=v and xs=xs] assms by simp

lemma hardware2_header_stmts: "list_all is_hardware_stmt hardware2_header"
  by (simp add: hardware2_header_def is_hardware_stmt_def)

lemma add_hardware2_adds:
  assumes "add_hardware2 s xs = Inr ys"
  shows "\<exists>new. ys = xs @ new \<and> list_all is_hardware_stmt new"
proof -
  from if_section_Inr [OF assms [unfolded add_hardware2_def]]
  show ?thesis
  proof (elim disjE conjE exE)
    assume "ys = xs" then show ?thesis by simp
  next
    fix sec
    assume "bind_err (py_items sec) (\<lambda>items.
         for_items hardware2_item items (xs @ hardware2_header)) = Inr ys"
    then obtain d where "for_items hardware2_item d (xs @ hardware2_header) = Inr ys"
      by (auto simp: bind_err_Inr)
    from for_items_adds [OF this, of is_hardware_stmt] hardware2_item_adds
    have "\<exists>new. ys = (xs @ hardware2_header) @ new \<and> list_all is_hardware_stmt new" by blast
    moreover have "\<exists>new. xs @ hardware2_header = xs @ new \<and> list_all is_hardware_stmt new"
      using hardware2_header_stmts by blast
    ultimately show ?thesis by (rule adds_trans [rotated])
  qed
qed

lemma mel_commands_of_Inr:
  assumes "mel_commands_of s = Inr ls"
  obtains x1 x2 x3 x4 x5 x6 x7 where
    "add_camera_gate s mel_header = Inr x1"
    "add_camera_mask s x1 = Inr x2"
    "add_camera_filmfit s x2 = Inr x3"
    "add_gpu_cache s (x3 @ [''    }'', '''']) = Inr x4"
    "add_display s x4 = Inr x5"
    "add_background s x5 = Inr x6"
    "add_hardware2 s x6 = Inr x7"
    "ls = x7 @ [''}'', '''', ''viewportCaptureApply();'']"
  using assms unfolding mel_commands_of_def by (auto simp: bind_err_Inr)

lemma one_if_all: "one_if c P new \<Longrightarrow> list_all P new"
  by (auto simp: one_if_def split: if_splits)

lemma append_if_in_shape:
  assumes "append_if_in k c line xs = Inr ys" and "\<And>v l. line v = Inr l \<Longrightarrow> P l"
  shows "\<exists>new. ys = xs @ new \<and> one_if (py_contains k c = Inr True) P new"
  using append_if_in_Inr [OF assms(1)] assms(2) by (auto simp: one_if_def)

lemma add_background_shape:
  assumes "add_background s xs = Inr ys"
  shows "(py_contains ''background'' s = Inr False \<and> ys = xs) \<or>
    (\<exists>bg grad top base bottom g.
       py_getitem s ''background'' = Inr bg \<and>
       ys = xs @ ['''', ''    // Background Settings''] @ grad @ top @ base @ bottom \<and>
       list_all (prefix ''    displayPref -displayGradient '') grad \<and>
       list_all (prefix (''    displayRGBColor '' @ [CHR 0x22] @ ''backgroundTop'' @ [CHR 0x22] @ '' '')) top \<and>
       one_if (py_contains ''color'' bg = Inr True) is_base_color_stmt base \<and>
       py_get bg ''gradient'' PNone = Inr g \<and>
       one_if (py_truthy g \<and> py_contains ''bottomColor'' bg = Inr True) is_bottom_color_stmt bottom)"
proof -
  from if_section_Inr [OF assms [unfolded add_background_def]]
  show ?thesis
  proof (elim disjE conjE exE)
    assume "py_contains ''background'' s = Inr False" "ys = xs"
    then show ?thesis by simp
  next
    fix bg
    assume bg: "py_getitem s ''background'' = Inr bg"
    assume \<open>bind_err (append_if_in ''gradient'' bg
          (\<lambda>v. Inr (''    displayPref -displayGradient '' @ py_lower (py_str v) @ '';''))
          (xs @ ['''', ''    // Background Settings''])) (\<lambda>mel_commands.
       bind_err (append_if_in ''topColor'' bg
          (\<lambda>top_color. bind_err (format_triple top_color) (\<lambda>t.
             Inr (''    displayRGBColor "backgroundTop" '' @ t @ '';'')))
          mel_commands) (\<lambda>mel_commands.
       bind_err (append_if_in ''color'' bg
          (\<lambda>color. bind_err (format_triple color) (\<lambda>t.
             Inr (''    displayRGBColor "background" '' @ t @ '';'')))
          mel_commands) (\<lambda>mel_commands.
       bind_err (py_get bg ''gradient'' PNone) (\<lambda>gradient.
         if py_truthy gradient
         then append_if_in ''bottomColor'' bg
                (\<lambda>bottom_color. bind_err (format_triple bottom_color) (\<lambda>t.
                   Inr (''    displayRGBColor "backgroundBottom" '' @ t @ '';'')))
                mel_commands
         else Inr mel_commands)))) = Inr ys\<close>
    then obtain x1 x2 x3 g where
      1: \<open>append_if_in ''gradient'' bg
          (\<lambda>v. Inr (''    displayPref -displayGradient '' @ py_lower (py_str v) @ '';''))
          (xs @ ['''', ''    // Background Settings'']) = Inr x1\<close>
      and 2: \<open>append_if_in ''topColor'' bg
          (\<lambda>top_color. bind_err (format_triple top_color) (\<lambda>t.
             Inr (''    displayRGBColor "backgroundTop" '' @ t @ '';''))) x1 = Inr x2\<close>
      and 3: \<open>append_if_in ''color'' bg
          (\<lambda>color. bind_err (format_triple color) (\<lambda>t.
             Inr (''    displayRGBColor "background" '' @ t @ '';''))) x2 = Inr x3\<close>
      and g: "py_get bg ''gradient'' PNone = Inr g"
      and 4: \<open>(if py_truthy g
         then append_if_in ''bottomColor'' bg
                (\<lambda>bottom_color. bind_err (format_triple bottom_color) (\<lambda>t.
                   Inr (''    displayRGBColor "backgroundBottom" '' @ t @ '';'')))
                x3
         else Inr x3) = Inr ys\<close>
      by (auto simp: bind_err_Inr)
    have "\<exists>grad. x1 = (xs @ ['''', ''    // Background Settings'']) @ grad \<and>
        one_if (py_contains ''gradient'' bg = Inr True)
          (prefix ''    displayPref -displayGradient '') grad"
      by (rule append_if_in_shape [OF 1]) auto
    then obtain grad where
      grad: "x1 = (xs @ ['''', ''    // Background Settings'']) @ grad"
        "list_all (prefix ''    displayPref -displayGradient '') grad"
      by (blast dest: one_if_all)
    have "\<exists>top. x2 = x1 @ top \<and>
        one_if (py_contains ''topColor'' bg = Inr True)
          (prefix (''    displayRGBColor '' @ [CHR 0x22] @ ''backgroundTop'' @ [CHR 0x22] @ '' '')) top"
      by (rule append_if_in_shape [OF 2]) (auto simp: bind_err_Inr)
    then obtain top where
      top: "x2 = x1 @ top"
        "list_all (prefix (''    displayRGBColor '' @ [CHR 0x22] @ ''backgroundTop'' @ [CHR 0x22] @ '' '')) top"
      by (blast dest: one_if_all)
    have "\<exists>base. x3 = x2 @ base \<and>
        one_if (py_contains ''color'' bg = Inr True) is_base_color_stmt base"
      by (rule append_if_in_shape [OF 3]) (auto simp: bind_err_Inr is_base_color_stmt_def)
    then obtain base where
      base: "x3 = x2 @ base" "one_if (py_contains ''color'' bg = Inr True) is_base_color_stmt base"
      by blast
    have "\<exists>bottom. ys = x3 @ bottom \<and>
       one_if (py_truthy g \<and> py_contains ''bottomColor'' bg = Inr True) is_bottom_color_stmt bottom"
    proof (cases "py_truthy g")
      case True
      with 4 have \<open>append_if_in ''bottomColor'' bg
                (\<lambda>bottom_color. bind_err (format_triple bottom_color) (\<lambda>t.
                   Inr (''    displayRGBColor "backgroundBottom" '' @ t @ '';''))) x3 = Inr ys\<close>
        by simp
      then have "\<exists>bottom. ys = x3 @ bottom \<and>
          one_if (py_contains ''bottomColor'' bg = Inr True) is_bottom_color_stmt bottom"
        by (rule append_if_in_shape) (auto simp: bind_err_Inr is_bottom_color_stmt_def)
      with True show ?thesis by simp
    next
      case False
      with 4 show ?thesis by (simp add: one_if_def)
    qed
    then obtain bottom where
      bottom: "ys = x3 @ bottom"
        "one_if (py_truthy g \<and> py_contains ''bottomColor'' bg = Inr True) is_bottom_color_stmt bottom"
      by blast
    from grad top base bottom
    have "ys = xs @ ['''', ''    // Background Settings''] @ grad @ top @ base @ bottom" by simp
    with bg grad(2) top(2) base(2) bottom(2) g show ?thesis by blast
  qed
qed

lemma list_all_weaken:
  assumes "list_all P xs" and "\<And>x. P x \<Longrightarrow> Q x"
  shows "list_all Q xs"
  using assms by (induction xs) auto


lemma prefix_clash:
  assumes "prefix a l" and "prefix b l" and "\<not> prefix a b" and "\<not> prefix b a"
  shows False
  using assms prefix_same_cases by blast

lemma prefix_weaken:
  assumes "prefix b l" and "prefix a b"
  shows "prefix a l"
  using assms prefix_order.trans by blast

lemma add_background_adds:
  assumes "add_background s xs = Inr ys"
  shows "\<exists>new. ys = xs @ new \<and> list_all is_background_stmt new"
proof -
  from add_background_shape [OF assms] show ?thesis
  proof (elim disjE conjE exE)
    assume "ys = xs" then show ?thesis by simp
  next
    fix bg grad top base bottom g
    assume ys: "ys = xs @ ['''', ''    // Background Settings''] @ grad @ top @ base @ bottom"
      and grad: "list_all (prefix ''    displayPref -displayGradient '') grad"
      and top: "list_all (prefix (''    displayRGBColor '' @ [CHR 0x22] @ ''backgroundTop'' @ [CHR 0x22] @ '' '')) top"
      and base': "one_if (py_contains ''color'' bg = Inr True) is_base_color_stmt base"
      and bottom': "one_if (py_truthy g \<and> py_contains ''bottomColor'' bg = Inr True)
          is_bottom_color_stmt bottom"
    note base = one_if_all [OF base'] and bottom = one_if_all [OF bottom']
    have 1: "list_all is_background_stmt grad"
      by (rule list_all_weaken [OF grad]) (simp add: is_background_stmt_def)
    have 2: "list_all is_background_stmt top"
      by (rule list_all_weaken [OF top])
         (auto simp: is_background_stmt_def intro: prefix_weaken)
    have 3: "list_all is_background_stmt base"
      by (rule list_all_weaken [OF base])
         (auto simp: is_background_stmt_def is_base_color_stmt_def intro: prefix_weaken)
    have 4: "list_all is_background_stmt bottom"
      by (rule list_all_weaken [OF bottom])
         (auto simp: is_background_stmt_def is_bottom_color_stmt_def intro: prefix_weaken)
    have "list_all is_background_stmt (['''', ''    // Background Settings''] @ grad @ top @ base @ bottom)"
      using 1 2 3 4 by (simp add: is_background_stmt_def)
    with ys show ?thesis by blast
  qed
qed

text \<open>The parts of the list, in the order in which the function appends them.\<close>

lemma mel_commands_of_parts:
  assumes "mel_commands_of s = Inr ls"
  obtains cam flag disp bg hw where
    "ls = (mel_header @ cam @ [''    }'', ''''] @ gpu_cache_block flag
            @ ''    // Display Settings'' # disp) @ bg @ hw @ [''}'', '''', ''viewportCaptureApply();'']"
    "list_all is_camera_stmt cam"
    "list_all is_display_stmt disp"
    "add_background s (mel_header @ cam @ [''    }'', ''''] @ gpu_cache_block flag
            @ ''    // Display Settings'' # disp)
       = Inr ((mel_header @ cam @ [''    }'', ''''] @ gpu_cache_block flag
            @ ''    // Display Settings'' # disp) @ bg)"
    "list_all is_background_stmt bg"
    "list_all is_hardware_stmt hw"
proof -
  from assms obtain x1 x2 x3 x4 x5 x6 x7 where st:
    "add_camera_gate s mel_header = Inr x1"
    "add_camera_mask s x1 = Inr x2"
    "add_camera_filmfit s x2 = Inr x3"
    "add_gpu_cache s (x3 @ [''    }'', '''']) = Inr x4"
    "add_display s x4 = Inr x5"
    "add_background s x5 = Inr x6"
    "add_hardware2 s x6 = Inr x7"
    "ls = x7 @ [''}'', '''', ''viewportCaptureApply();'']"
    by (rule mel_commands_of_Inr)
  from adds_trans [OF adds_trans [OF add_camera_gate_adds [OF st(1)] add_camera_mask_adds [OF st(2)]]
      add_camera_filmfit_adds [OF st(3)]]
  obtain cam where cam: "x3 = mel_header @ cam" "list_all is_camera_stmt cam" by blast
  from add_gpu_cache_adds [OF st(4)] obtain flag where
    flag: "x4 = (x3 @ [''    }'', '''']) @ gpu_cache_block flag" by blast
  from add_display_adds [OF st(5)] obtain disp where
    disp: "x5 = x4 @ ''    // Display Settings'' # disp" "list_all is_display_stmt disp" by blast
  from add_background_adds [OF st(6)] obtain bg where
    bg: "x6 = x5 @ bg" "list_all is_background_stmt bg" by blast
  from add_hardware2_adds [OF st(7)] obtain hw where
    hw: "x7 = x6 @ hw" "list_all is_hardware_stmt hw" by blast
  have x5: "x5 = mel_header @ cam @ [''    }'', ''''] @ gpu_cache_block flag
            @ ''    // Display Settings'' # disp"
    using cam(1) flag disp(1) by simp
  show thesis
  proof (rule that [of cam flag disp bg hw])
    show "ls = (mel_header @ cam @ [''    }'', ''''] @ gpu_cache_block flag
            @ ''    // Display Settings'' # disp) @ bg @ hw @ [''}'', '''', ''viewportCaptureApply();'']"
      using st(8) hw(1) bg(1) x5 by simp
    show "add_background s (mel_header @ cam @ [''    }'', ''''] @ gpu_cache_block flag
            @ ''    // Display Settings'' # disp)
       = Inr ((mel_header @ cam @ [''    }'', ''''] @ gpu_cache_block flag
            @ ''    // Display Settings'' # disp) @ bg)"
      using st(6) bg(1) x5 by simp
  qed (fact cam(2) disp(2) bg(2) hw(2))+
qed

lemma settings_to_mel_Inr:
  assumes "py_truthy s" and "settings_to_mel self s = Inr script"
  obtains ls where "mel_commands_of s = Inr ls" and "script = str_join [CHR 0x0A] ls"
  using assms by (auto simp: settings_to_mel_def bind_err_Inr)

text \<open>
  Claim C2, as the code has it. For a snapshot that is neither \<^verbatim>\<open>None\<close> nor empty, the
  script that \<^verbatim>\<open>settings_to_mel\<close> returns is the list \<^verbatim>\<open>mel_commands\<close> joined by newlines, and
  this list is made of, in this order: the opening of the procedure, the camera
  statements, the plugin (gpuCache) flag behind its plugin-load guard, the display
  statements, the background statements, the hardware statements, and the call of the
  procedure, which closes every list. The plugin flag comes before the display flags,
  not after them.
\<close>

theorem settings_to_mel_section_order:
  assumes "py_truthy s" and "settings_to_mel self s = Inr script"
  shows "\<exists>ls cam flag disp bg hw.
    mel_commands_of s = Inr ls
    \<and> script = str_join [CHR 0x0A] ls
    \<and> ls = mel_header @ cam @ [''    }'', ''''] @ gpu_cache_block flag
        @ [''    // Display Settings''] @ disp @ bg @ hw
        @ [''}'', '''', ''viewportCaptureApply();'']
    \<and> list_all is_camera_stmt cam \<and> list_all is_display_stmt disp
    \<and> list_all is_background_stmt bg \<and> list_all is_hardware_stmt hw"
proof -
  from assms obtain ls where ls: "mel_commands_of s = Inr ls" "script = str_join [CHR 0x0A] ls"
    by (rule settings_to_mel_Inr)
  from ls(1) obtain cam flag disp bg hw where parts:
    "ls = (mel_header @ cam @ [''    }'', ''''] @ gpu_cache_block flag
            @ ''    // Display Settings'' # disp) @ bg @ hw @ [''}'', '''', ''viewportCaptureApply();'']"
    "list_all is_camera_stmt cam" "list_all is_display_stmt disp"
    "list_all is_background_stmt bg" "list_all is_hardware_stmt hw"
    by (rule mel_commands_of_parts)
  from parts(1) have shape: "ls = mel_header @ cam @ [''    }'', ''''] @ gpu_cache_block flag
        @ [''    // Display Settings''] @ disp @ bg @ hw
        @ [''}'', '''', ''viewportCaptureApply();'']"
    by simp
  show ?thesis
    by (intro exI [of _ ls] exI [of _ cam] exI [of _ flag] exI [of _ disp] exI [of _ bg]
          exI [of _ hw] conjI)
       (fact ls shape parts(2-))+
qed

theorem settings_to_mel_section_order_witness:
  "\<exists>ls cam flag disp bg hw.
    mel_commands_of example_snapshot = Inr ls
    \<and> settings_to_mel example_state example_snapshot = Inr (str_join [CHR 0x0A] ls)
    \<and> ls = mel_header @ cam @ [''    }'', ''''] @ gpu_cache_block flag
        @ [''    // Display Settings''] @ disp @ bg @ hw
        @ [''}'', '''', ''viewportCaptureApply();'']
    \<and> list_all is_camera_stmt cam \<and> list_all is_display_stmt disp
    \<and> list_all is_background_stmt bg \<and> list_all is_hardware_stmt hw"
proof -
  have 1: "py_truthy example_snapshot"
    by (simp add: example_snapshot_def)
  have "\<not> isl (settings_to_mel example_state example_snapshot)"
    by code_simp
  then obtain script where 2: "settings_to_mel example_state example_snapshot = Inr script"
    by (cases "settings_to_mel example_state example_snapshot") auto
  from settings_to_mel_section_order [OF 1 2] show ?thesis
    unfolding 2 by simp
qed

text \<open>
  Claim C2 as the specification words it puts the display flags before the plugin flag.
  On a snapshot with one display flag the plugin statement stands before the display
  statement, and the display statement does not stand before the plugin statement.
\<close>

theorem section_order_counterexample:
  \<open>\<not> isl (mel_commands_of flat_snapshot)
   \<and> settings_to_mel example_state flat_snapshot
       = Inr (str_join [CHR 0x0A] (projr (mel_commands_of flat_snapshot)))
   \<and> occurs_before
        ''    modelEditor -e -pluginObjects gpuCacheDisplayFilter false $panel;''
        ''    modelEditor -e -wireframe true $panel;''
        (projr (mel_commands_of flat_snapshot))
   \<and> \<not> occurs_before
        ''    modelEditor -e -wireframe true $panel;''
        ''    modelEditor -e -pluginObjects gpuCacheDisplayFilter false $panel;''
        (projr (mel_commands_of flat_snapshot))\<close>
  by code_simp






lemma base_not_bottom:
  assumes "is_base_color_stmt l"
  shows "\<not> is_bottom_color_stmt l"
  using assms by (auto simp: is_bottom_color_stmt_def is_base_color_stmt_def dest: prefix_clash)

lemma bottom_not_base:
  assumes "is_bottom_color_stmt l"
  shows "\<not> is_base_color_stmt l"
  using assms base_not_bottom by blast







section \<open>How the values are rendered\<close>

lemma py_lower_bool_text [simp]:
  "py_lower (if b then ''True'' else ''False'') = mel_bool b"
  by (simp add: mel_bool_def py_lower_True py_lower_False)

lemma py_getitem_get:
  "py_getitem c k = Inr v \<Longrightarrow> py_get c k dflt = Inr v"
  by (cases c) (auto split: option.splits)

lemma append_if_in_emits:
  assumes "append_if_in k c line xs = Inr ys" and "py_getitem c k = Inr v"
  shows "\<exists>l. line v = Inr l \<and> l \<in> set ys"
  using append_if_in_Inr [OF assms(1)] py_getitem_contains [OF assms(2)] assms(2) by auto

lemma append_if_in_keeps:
  assumes "append_if_in k c line xs = Inr ys"
  shows "set xs \<subseteq> set ys"
  using append_if_in_Inr [OF assms] by auto

lemma if_section_body:
  assumes "if_section k s body xs = Inr ys" and "py_getitem s k = Inr sec"
  shows "body sec xs = Inr ys"
  using if_section_Inr [OF assms(1)] py_getitem_contains [OF assms(2)] assms(2) by auto

lemma adds_keeps:
  assumes "\<exists>new. ys = xs @ new \<and> list_all P new"
  shows "set xs \<subseteq> set ys"
  using assms by auto

lemma emits_in_gate:
  assumes "add_camera_gate s xs = Inr ys" and "py_getitem s ''camera_gate'' = Inr cg"
    and "py_getitem cg k = Inr v" and "k = ''displayFilmGate'' \<or> k = ''displayResolution''"
  shows "''        camera -e -'' @ k @ '' '' @ py_lower (py_str v) @ '' $camera;'' \<in> set ys"
proof -
  from if_section_body [OF assms(1) [unfolded add_camera_gate_def] assms(2)]
  obtain x1 x2 where
      1: "append_if_in ''displayFilmGate'' cg
          (\<lambda>v. Inr (''        camera -e -displayFilmGate '' @ py_lower (py_str v) @ '' $camera;'')) xs = Inr x1"
      and 2: "append_if_in ''displayResolution'' cg
          (\<lambda>v. Inr (''        camera -e -displayResolution '' @ py_lower (py_str v) @ '' $camera;'')) x1 = Inr x2"
      and 3: "append_if_in ''overscan'' cg
          (\<lambda>v. Inr (''        camera -e -overscan '' @ py_str v @ '' $camera;'')) x2 = Inr ys"
    by (auto simp: bind_err_Inr)
  note k12 = append_if_in_keeps [OF 2] and k23 = append_if_in_keeps [OF 3]
  from assms(4) show ?thesis
  proof
    assume k: "k = ''displayFilmGate''"
    from append_if_in_emits [OF 1 assms(3) [unfolded k]] k12 k23 show ?thesis
      unfolding k by auto
  next
    assume k: "k = ''displayResolution''"
    from append_if_in_emits [OF 2 assms(3) [unfolded k]] k23 show ?thesis
      unfolding k by auto
  qed
qed

lemma emits_in_mask:
  assumes "add_camera_mask s xs = Inr ys" and "py_getitem s ''camera_mask'' = Inr cm"
    and "py_getitem cm ''displayGateMask'' = Inr v"
  shows "''        camera -e -displayGateMask '' @ py_lower (py_str v) @ '' $camera;'' \<in> set ys"
proof -
  from if_section_body [OF assms(1) [unfolded add_camera_mask_def] assms(2)]
  have "append_if_in ''displayGateMask'' cm
          (\<lambda>v. Inr (''        camera -e -displayGateMask '' @ py_lower (py_str v) @ '' $camera;'')) xs = Inr ys" .
  from append_if_in_emits [OF this assms(3)] show ?thesis by auto
qed

lemma emits_in_gpu:
  assumes "add_gpu_cache s xs = Inr ys" and "py_getitem s ''plugin_display'' = Inr pd"
    and "py_getitem pd ''gpuCache'' = Inr v"
  shows "''    modelEditor -e -pluginObjects gpuCacheDisplayFilter '' @ py_lower (py_str v) @ '' $panel;''
           \<in> set ys"
  using assms(1) py_getitem_get [OF assms(2)] py_getitem_get [OF assms(3)]
  by (auto simp: add_gpu_cache_def gpu_cache_block_def)

lemma for_items_emits:
  assumes "for_items body d xs = Inr ys" and "(k, v) \<in> set d"
    and keeps: "\<And>k v xs ys. body k v xs = Inr ys \<Longrightarrow> set xs \<subseteq> set ys"
    and emits: "\<And>xs ys. body k v xs = Inr ys \<Longrightarrow> l \<in> set ys"
  shows "l \<in> set ys"
  using assms(1,2)
proof (induction d arbitrary: xs)
  case Nil
  then show ?case by simp
next
  case (Cons kv d)
  from Cons.prems(1) obtain zs where 1: "body (fst kv) (snd kv) xs = Inr zs"
    and 2: "for_items body d zs = Inr ys"
    by (auto simp: bind_err_Inr)
  show ?case
  proof (cases "(k, v) \<in> set d")
    case True
    from Cons.IH [OF 2 True] show ?thesis .
  next
    case False
    with Cons.prems(2) have "kv = (k, v)" by simp
    with 1 have "l \<in> set zs" by (auto dest: emits)
    moreover have "set zs \<subseteq> set ys"
      using 2
    proof (induction d arbitrary: zs)
      case Nil
      then show ?case by simp
    next
      case (Cons a d)
      then show ?case by (auto simp: bind_err_Inr dest!: keeps)
    qed
    ultimately show ?thesis by blast
  qed
qed

lemma display_item_emits:
  "attr \<noteq> ''displayLights'' \<Longrightarrow> attr \<noteq> ''displayAppearance'' \<Longrightarrow>
   case display_item attr v xs of Inl e \<Rightarrow> True
   | Inr ys \<Rightarrow> ''    modelEditor -e -'' @ attr @ '' '' @ py_lower (py_str v) @ '' $panel;'' \<in> set ys"
  by (simp add: display_item_def bind_err_def split: sum.split)

lemma emits_in_display:
  assumes "add_display s xs = Inr ys" and "py_getitem s ''display'' = Inr (PDict d)"
    and "(attr, v) \<in> set d" and "attr \<noteq> ''displayLights''" and "attr \<noteq> ''displayAppearance''"
  shows "''    modelEditor -e -'' @ attr @ '' '' @ py_lower (py_str v) @ '' $panel;'' \<in> set ys"
proof -
  from assms(1,2) have "for_items display_item d (xs @ [''    // Display Settings'']) = Inr ys"
    by (simp add: add_display_def)
  then show ?thesis
  proof (rule for_items_emits [OF _ assms(3)])
    fix k v xs ys
    assume "display_item k v xs = Inr ys"
    from adds_keeps [OF display_item_adds [OF this]] show "set xs \<subseteq> set ys" .
  next
    fix xs ys
    assume "display_item attr v xs = Inr ys"
    with display_item_emits [OF assms(4,5), where v=v and xs=xs]
    show "''    modelEditor -e -'' @ attr @ '' '' @ py_lower (py_str v) @ '' $panel;'' \<in> set ys"
      by simp
  qed
qed

lemma int_str_bool: "int_str (if b then 1 else 0) = (if b then ''1'' else ''0'')"
proof -
  have "int_str 1 = ''1''" "int_str 0 = ''0''" by code_simp+
  then show ?thesis by simp
qed

lemma format_triple_is_triple:
  "is_triple v x y z \<Longrightarrow> format_triple v = Inr (spaced x y z)"
  by (auto simp: is_triple_def format_triple_def spaced_def)

lemma hardware2_item_bool:
  \<open>hardware2_item attr (PBool b) xs =
     Inr (xs @ [''    setAttr "hardwareRenderingGlobals.'' @ attr @ ''" ''
                  @ (if b then ''1'' else ''0'') @ '';''])\<close>
proof -
  have "py_str (PInt (if b then 1 else 0)) = (if b then ''1'' else ''0'')"
    using int_str_bool [of b] by simp
  then show ?thesis by (simp add: hardware2_item_def)
qed

lemma hardware2_item_triple:
  assumes "is_triple v x y z"
  shows \<open>hardware2_item attr v xs =
     Inr (xs @ [''    setAttr "hardwareRenderingGlobals.'' @ attr @ ''" -type double3 ''
                  @ spaced x y z @ '';''])\<close>
  using assms format_triple_is_triple [OF assms]
  by (auto simp: hardware2_item_def is_triple_def)

lemma emits_in_hardware2:
  assumes "add_hardware2 s xs = Inr ys" and "py_getitem s ''hardware2'' = Inr (PDict d)"
    and "(attr, v) \<in> set d" and "\<And>xs. hardware2_item attr v xs = Inr (xs @ [l])"
  shows "l \<in> set ys"
proof -
  from if_section_body [OF assms(1) [unfolded add_hardware2_def] assms(2)]
  have "for_items hardware2_item d (xs @ hardware2_header) = Inr ys" by simp
  then show ?thesis
  proof (rule for_items_emits [OF _ assms(3)])
    fix k v xs ys
    assume "hardware2_item k v xs = Inr ys"
    from adds_keeps [OF hardware2_item_adds [OF this]] show "set xs \<subseteq> set ys" .
  next
    fix xs ys
    assume "hardware2_item attr v xs = Inr ys"
    with assms(4) [of xs] show "l \<in> set ys" by simp
  qed
qed

lemma add_background_stages:
  assumes "add_background s xs = Inr ys" and "py_getitem s ''background'' = Inr bg"
  obtains x1 x2 x3 g where
    \<open>append_if_in ''gradient'' bg
          (\<lambda>v. Inr (''    displayPref -displayGradient '' @ py_lower (py_str v) @ '';''))
          (xs @ ['''', ''    // Background Settings'']) = Inr x1\<close>
    \<open>append_if_in ''topColor'' bg
          (\<lambda>top_color. bind_err (format_triple top_color) (\<lambda>t.
             Inr (''    displayRGBColor "backgroundTop" '' @ t @ '';''))) x1 = Inr x2\<close>
    \<open>append_if_in ''color'' bg
          (\<lambda>color. bind_err (format_triple color) (\<lambda>t.
             Inr (''    displayRGBColor "background" '' @ t @ '';''))) x2 = Inr x3\<close>
    "py_get bg ''gradient'' PNone = Inr g"
    \<open>(if py_truthy g
         then append_if_in ''bottomColor'' bg
                (\<lambda>bottom_color. bind_err (format_triple bottom_color) (\<lambda>t.
                   Inr (''    displayRGBColor "backgroundBottom" '' @ t @ '';'')))
                x3
         else Inr x3) = Inr ys\<close>
  using if_section_body [OF assms(1) [unfolded add_background_def] assms(2)]
  by (auto simp: bind_err_Inr)

lemma emits_in_background:
  assumes "add_background s xs = Inr ys" and "py_getitem s ''background'' = Inr bg"
  shows gradient_emitted:
      "py_getitem bg ''gradient'' = Inr v \<Longrightarrow>
       ''    displayPref -displayGradient '' @ py_lower (py_str v) @ '';'' \<in> set ys"
    and top_emitted:
      \<open>py_getitem bg ''topColor'' = Inr c \<Longrightarrow> is_triple c x y z \<Longrightarrow>
       ''    displayRGBColor "backgroundTop" '' @ spaced x y z @ '';'' \<in> set ys\<close>
    and base_emitted:
      \<open>py_getitem bg ''color'' = Inr c \<Longrightarrow> is_triple c x y z \<Longrightarrow>
       ''    displayRGBColor "background" '' @ spaced x y z @ '';'' \<in> set ys\<close>
    and bottom_emitted:
      \<open>py_getitem bg ''bottomColor'' = Inr c \<Longrightarrow> is_triple c x y z \<Longrightarrow>
       py_getitem bg ''gradient'' = Inr g \<Longrightarrow> py_truthy g \<Longrightarrow>
       ''    displayRGBColor "backgroundBottom" '' @ spaced x y z @ '';'' \<in> set ys\<close>
proof -
  from assms obtain x1 x2 x3 g' where
    1: \<open>append_if_in ''gradient'' bg
          (\<lambda>v. Inr (''    displayPref -displayGradient '' @ py_lower (py_str v) @ '';''))
          (xs @ ['''', ''    // Background Settings'']) = Inr x1\<close>
    and 2: \<open>append_if_in ''topColor'' bg
          (\<lambda>top_color. bind_err (format_triple top_color) (\<lambda>t.
             Inr (''    displayRGBColor "backgroundTop" '' @ t @ '';''))) x1 = Inr x2\<close>
    and 3: \<open>append_if_in ''color'' bg
          (\<lambda>color. bind_err (format_triple color) (\<lambda>t.
             Inr (''    displayRGBColor "background" '' @ t @ '';''))) x2 = Inr x3\<close>
    and g': "py_get bg ''gradient'' PNone = Inr g'"
    and 4: \<open>(if py_truthy g'
         then append_if_in ''bottomColor'' bg
                (\<lambda>bottom_color. bind_err (format_triple bottom_color) (\<lambda>t.
                   Inr (''    displayRGBColor "backgroundBottom" '' @ t @ '';'')))
                x3
         else Inr x3) = Inr ys\<close>
    by (rule add_background_stages)
  note k12 = append_if_in_keeps [OF 2] and k23 = append_if_in_keeps [OF 3]
  have k34: "set x3 \<subseteq> set ys"
    using 4 by (auto split: if_splits dest: append_if_in_keeps)
  show "''    displayPref -displayGradient '' @ py_lower (py_str v) @ '';'' \<in> set ys"
    if "py_getitem bg ''gradient'' = Inr v"
    using append_if_in_emits [OF 1 that] k12 k23 k34 by auto
  show \<open>''    displayRGBColor "backgroundTop" '' @ spaced x y z @ '';'' \<in> set ys\<close>
    if "py_getitem bg ''topColor'' = Inr c" "is_triple c x y z"
    using append_if_in_emits [OF 2 that(1)] format_triple_is_triple [OF that(2)] k23 k34 by auto
  show \<open>''    displayRGBColor "background" '' @ spaced x y z @ '';'' \<in> set ys\<close>
    if "py_getitem bg ''color'' = Inr c" "is_triple c x y z"
    using append_if_in_emits [OF 3 that(1)] format_triple_is_triple [OF that(2)] k34 by auto
  show \<open>''    displayRGBColor "backgroundBottom" '' @ spaced x y z @ '';'' \<in> set ys\<close>
    if "py_getitem bg ''bottomColor'' = Inr c" "is_triple c x y z"
      "py_getitem bg ''gradient'' = Inr g" "py_truthy g"
  proof -
    from py_getitem_get [OF that(3)] g' have "g' = g" by simp
    with 4 that(4) have \<open>append_if_in ''bottomColor'' bg
                (\<lambda>bottom_color. bind_err (format_triple bottom_color) (\<lambda>t.
                   Inr (''    displayRGBColor "backgroundBottom" '' @ t @ '';''))) x3 = Inr ys\<close>
      by simp
    from append_if_in_emits [OF this that(1)] format_triple_is_triple [OF that(2)]
    show ?thesis by auto
  qed
qed

text \<open>What a step has appended stays in the list to the end.\<close>

lemma stages_keep:
  assumes "add_camera_gate s mel_header = Inr x1"
    "add_camera_mask s x1 = Inr x2"
    "add_camera_filmfit s x2 = Inr x3"
    "add_gpu_cache s (x3 @ [''    }'', '''']) = Inr x4"
    "add_display s x4 = Inr x5"
    "add_background s x5 = Inr x6"
    "add_hardware2 s x6 = Inr x7"
    "ls = x7 @ [''}'', '''', ''viewportCaptureApply();'']"
  shows "set x1 \<subseteq> set ls" "set x2 \<subseteq> set ls" "set x4 \<subseteq> set ls" "set x5 \<subseteq> set ls"
    "set x6 \<subseteq> set ls" "set x7 \<subseteq> set ls"
proof -
  have 7: "set x7 \<subseteq> set ls" using assms(8) by auto
  have 6: "set x6 \<subseteq> set x7" using add_hardware2_adds [OF assms(7)] by auto
  have 5: "set x5 \<subseteq> set x6" using add_background_adds [OF assms(6)] by auto
  have 4: "set x4 \<subseteq> set x5" using add_display_adds [OF assms(5)] by auto
  have 3: "set x3 \<subseteq> set x4" using add_gpu_cache_adds [OF assms(4)] by auto
  have 2: "set x2 \<subseteq> set x3" using add_camera_filmfit_adds [OF assms(3)] by auto
  have 1: "set x1 \<subseteq> set x2" using add_camera_mask_adds [OF assms(2)] by auto
  from 7 show "set x7 \<subseteq> set ls" .
  from 6 7 show "set x6 \<subseteq> set ls" by blast
  from 5 6 7 show "set x5 \<subseteq> set ls" by blast
  from 4 5 6 7 show "set x4 \<subseteq> set ls" by blast
  from 2 3 4 5 6 7 show "set x2 \<subseteq> set ls" by blast
  from 1 2 3 4 5 6 7 show "set x1 \<subseteq> set ls" by blast
qed

text \<open>
  Claim C3, as the code has it. In the script that \<^verbatim>\<open>settings_to_mel\<close> returns, a Boolean is
  written \<^verbatim>\<open>true\<close> or \<^verbatim>\<open>false\<close> when it is the film gate or the resolution gate of the
  camera, the gate mask, the plugin flag \<^verbatim>\<open>gpuCache\<close>, the gradient of the background, or a
  display flag other than \<^verbatim>\<open>displayLights\<close> and \<^verbatim>\<open>displayAppearance\<close>. A Boolean of the
  \<^verbatim>\<open>hardware2\<close> section is written as the integer \<^verbatim>\<open>1\<close> or \<^verbatim>\<open>0\<close>. A list or tuple of three
  components is written as the three components separated by spaces when it is a
  \<^verbatim>\<open>hardware2\<close> value, the top colour or the base colour of the background, or the bottom
  colour while the gradient is on.
\<close>

theorem settings_to_mel_values:
  assumes "py_truthy s" and "settings_to_mel self s = Inr script"
  shows \<open>\<exists>ls. script = str_join [CHR 0x0A] ls \<and>
    (\<forall>cg k b. py_getitem s ''camera_gate'' = Inr cg \<and> py_getitem cg k = Inr (PBool b)
         \<and> (k = ''displayFilmGate'' \<or> k = ''displayResolution'')
       \<longrightarrow> ''        camera -e -'' @ k @ '' '' @ mel_bool b @ '' $camera;'' \<in> set ls) \<and>
    (\<forall>cm b. py_getitem s ''camera_mask'' = Inr cm \<and> py_getitem cm ''displayGateMask'' = Inr (PBool b)
       \<longrightarrow> ''        camera -e -displayGateMask '' @ mel_bool b @ '' $camera;'' \<in> set ls) \<and>
    (\<forall>pd b. py_getitem s ''plugin_display'' = Inr pd \<and> py_getitem pd ''gpuCache'' = Inr (PBool b)
       \<longrightarrow> ''    modelEditor -e -pluginObjects gpuCacheDisplayFilter '' @ mel_bool b @ '' $panel;''
             \<in> set ls) \<and>
    (\<forall>d attr b. py_getitem s ''display'' = Inr (PDict d) \<and> (attr, PBool b) \<in> set d
         \<and> attr \<noteq> ''displayLights'' \<and> attr \<noteq> ''displayAppearance''
       \<longrightarrow> ''    modelEditor -e -'' @ attr @ '' '' @ mel_bool b @ '' $panel;'' \<in> set ls) \<and>
    (\<forall>bg b. py_getitem s ''background'' = Inr bg \<and> py_getitem bg ''gradient'' = Inr (PBool b)
       \<longrightarrow> ''    displayPref -displayGradient '' @ mel_bool b @ '';'' \<in> set ls) \<and>
    (\<forall>d attr b. py_getitem s ''hardware2'' = Inr (PDict d) \<and> (attr, PBool b) \<in> set d
       \<longrightarrow> ''    setAttr "hardwareRenderingGlobals.'' @ attr @ ''" '' @ (if b then ''1'' else ''0'') @ '';''
             \<in> set ls) \<and>
    (\<forall>d attr v x y z. py_getitem s ''hardware2'' = Inr (PDict d) \<and> (attr, v) \<in> set d
         \<and> is_triple v x y z
       \<longrightarrow> ''    setAttr "hardwareRenderingGlobals.'' @ attr @ ''" -type double3 '' @ spaced x y z @ '';''
             \<in> set ls) \<and>
    (\<forall>bg c x y z. py_getitem s ''background'' = Inr bg \<and> py_getitem bg ''topColor'' = Inr c
         \<and> is_triple c x y z
       \<longrightarrow> ''    displayRGBColor "backgroundTop" '' @ spaced x y z @ '';'' \<in> set ls) \<and>
    (\<forall>bg c x y z. py_getitem s ''background'' = Inr bg \<and> py_getitem bg ''color'' = Inr c
         \<and> is_triple c x y z
       \<longrightarrow> ''    displayRGBColor "background" '' @ spaced x y z @ '';'' \<in> set ls) \<and>
    (\<forall>bg c x y z g. py_getitem s ''background'' = Inr bg \<and> py_getitem bg ''bottomColor'' = Inr c
         \<and> is_triple c x y z \<and> py_getitem bg ''gradient'' = Inr g \<and> py_truthy g
       \<longrightarrow> ''    displayRGBColor "backgroundBottom" '' @ spaced x y z @ '';'' \<in> set ls)\<close>
proof -
  from assms obtain ls where ls: "mel_commands_of s = Inr ls" "script = str_join [CHR 0x0A] ls"
    by (rule settings_to_mel_Inr)
  from ls(1) obtain x1 x2 x3 x4 x5 x6 x7 where st:
    "add_camera_gate s mel_header = Inr x1"
    "add_camera_mask s x1 = Inr x2"
    "add_camera_filmfit s x2 = Inr x3"
    "add_gpu_cache s (x3 @ [''    }'', '''']) = Inr x4"
    "add_display s x4 = Inr x5"
    "add_background s x5 = Inr x6"
    "add_hardware2 s x6 = Inr x7"
    "ls = x7 @ [''}'', '''', ''viewportCaptureApply();'']"
    by (rule mel_commands_of_Inr)
  note keep = stages_keep [OF st]
  have gate: "''        camera -e -'' @ k @ '' '' @ mel_bool b @ '' $camera;'' \<in> set ls"
    if "py_getitem s ''camera_gate'' = Inr cg" "py_getitem cg k = Inr (PBool b)"
      "k = ''displayFilmGate'' \<or> k = ''displayResolution''" for cg k b
    using subsetD [OF keep(1) emits_in_gate [OF st(1) that]] by (simp only: py_lower_str_bool)
  have mask: "''        camera -e -displayGateMask '' @ mel_bool b @ '' $camera;'' \<in> set ls"
    if "py_getitem s ''camera_mask'' = Inr cm" "py_getitem cm ''displayGateMask'' = Inr (PBool b)"
    for cm b
    using subsetD [OF keep(2) emits_in_mask [OF st(2) that]] by (simp only: py_lower_str_bool)
  have gpu: "''    modelEditor -e -pluginObjects gpuCacheDisplayFilter '' @ mel_bool b @ '' $panel;''
             \<in> set ls"
    if "py_getitem s ''plugin_display'' = Inr pd" "py_getitem pd ''gpuCache'' = Inr (PBool b)"
    for pd b
    using subsetD [OF keep(3) emits_in_gpu [OF st(4) that]] by (simp only: py_lower_str_bool)
  have disp: "''    modelEditor -e -'' @ attr @ '' '' @ mel_bool b @ '' $panel;'' \<in> set ls"
    if "py_getitem s ''display'' = Inr (PDict d)" "(attr, PBool b) \<in> set d"
      "attr \<noteq> ''displayLights''" "attr \<noteq> ''displayAppearance''" for d attr b
    using subsetD [OF keep(4) emits_in_display [OF st(5) that]] by (simp only: py_lower_str_bool)
  have grad: "''    displayPref -displayGradient '' @ mel_bool b @ '';'' \<in> set ls"
    if "py_getitem s ''background'' = Inr bg" "py_getitem bg ''gradient'' = Inr (PBool b)" for bg b
    using subsetD [OF keep(5) gradient_emitted [OF st(6) that]] by (simp only: py_lower_str_bool)
  have hwb: \<open>''    setAttr "hardwareRenderingGlobals.'' @ attr @ ''" '' @ (if b then ''1'' else ''0'') @ '';''
             \<in> set ls\<close>
    if "py_getitem s ''hardware2'' = Inr (PDict d)" "(attr, PBool b) \<in> set d" for d attr b
    by (rule subsetD [OF keep(6) emits_in_hardware2 [OF st(7) that hardware2_item_bool]])
  have hwt: \<open>''    setAttr "hardwareRenderingGlobals.'' @ attr @ ''" -type double3 '' @ spaced x y z @ '';''
             \<in> set ls\<close>
    if "py_getitem s ''hardware2'' = Inr (PDict d)" "(attr, v) \<in> set d" "is_triple v x y z"
    for d attr v x y z
    by (rule subsetD [OF keep(6) emits_in_hardware2 [OF st(7) that(1,2)
          hardware2_item_triple [OF that(3)]]])
  have top: \<open>''    displayRGBColor "backgroundTop" '' @ spaced x y z @ '';'' \<in> set ls\<close>
    if "py_getitem s ''background'' = Inr bg" "py_getitem bg ''topColor'' = Inr c" "is_triple c x y z"
    for bg c x y z
    by (rule subsetD [OF keep(5) top_emitted [OF st(6) that]])
  have base: \<open>''    displayRGBColor "background" '' @ spaced x y z @ '';'' \<in> set ls\<close>
    if "py_getitem s ''background'' = Inr bg" "py_getitem bg ''color'' = Inr c" "is_triple c x y z"
    for bg c x y z
    by (rule subsetD [OF keep(5) base_emitted [OF st(6) that]])
  have bottom: \<open>''    displayRGBColor "backgroundBottom" '' @ spaced x y z @ '';'' \<in> set ls\<close>
    if "py_getitem s ''background'' = Inr bg" "py_getitem bg ''bottomColor'' = Inr c"
      "is_triple c x y z" "py_getitem bg ''gradient'' = Inr g" "py_truthy g"
    for bg c x y z g
    by (rule subsetD [OF keep(5) bottom_emitted [OF st(6) that]])
  show ?thesis
    apply (rule exI [where x=ls])
    apply (intro conjI allI impI)
    subgoal by (rule ls(2))
    subgoal by (elim conjE) (rule gate)
    subgoal by (elim conjE) (rule mask)
    subgoal by (elim conjE) (rule gpu)
    subgoal by (elim conjE) (rule disp)
    subgoal by (elim conjE) (rule grad)
    subgoal by (elim conjE) (rule hwb)
    subgoal by (elim conjE) (rule hwt)
    subgoal by (elim conjE) (rule top)
    subgoal by (elim conjE) (rule base)
    subgoal by (elim conjE) (rule bottom)
    done
qed

theorem settings_to_mel_values_witness:
  \<open>\<exists>ls. settings_to_mel example_state example_snapshot = Inr (str_join [CHR 0x0A] ls) \<and>
     ''        camera -e -displayFilmGate false $camera;'' \<in> set ls \<and>
     ''        camera -e -displayGateMask false $camera;'' \<in> set ls \<and>
     ''    modelEditor -e -pluginObjects gpuCacheDisplayFilter false $panel;'' \<in> set ls \<and>
     ''    modelEditor -e -wireframe true $panel;'' \<in> set ls \<and>
     ''    displayPref -displayGradient true;'' \<in> set ls \<and>
     ''    setAttr "hardwareRenderingGlobals.multiSampleEnable" 1;'' \<in> set ls \<and>
     ''    setAttr "hardwareRenderingGlobals.hwFogColor" -type double3 0.5 0.5 0.5;'' \<in> set ls \<and>
     ''    displayRGBColor "backgroundTop" 0.5 0.5 0.5;'' \<in> set ls \<and>
     ''    displayRGBColor "background" 0.5 0.5 0.5;'' \<in> set ls \<and>
     ''    displayRGBColor "backgroundBottom" 0.5 0.5 0.5;'' \<in> set ls\<close>
proof -
  define cg where "cg = PDict [(''displayFilmGate'', PBool False),
                                     (''displayResolution'', PBool True),
                                     (''overscan'', PFloat (PyFloat ''1.0'' (Some 1)))]"
  define cm where "cm = PDict [(''displayGateMask'', PBool False)]"
  define pd where "pd = PDict [(''gpuCache'', PBool False)]"
  define dp where "dp = [(''wireframe'', PBool True), (''hwFog'', PBool False),
                                 (''displayLights'', PStr ''default'')]"
  define bg where "bg = PDict [(''gradient'', PBool True),
                                    (''color'', PList [half, half, half]),
                                    (''topColor'', PList [half, half, half]),
                                    (''bottomColor'', PList [half, half, half])]"
  define hw where "hw = [(''multiSampleEnable'', PBool True),
                                   (''multiSampleCount'', PInt 8),
                                   (''hwFogColor'', PTuple [half, half, half])]"
  have sec: "py_getitem example_snapshot ''camera_gate'' = Inr cg"
    "py_getitem example_snapshot ''camera_mask'' = Inr cm"
    "py_getitem example_snapshot ''plugin_display'' = Inr pd"
    "py_getitem example_snapshot ''display'' = Inr (PDict dp)"
    "py_getitem example_snapshot ''background'' = Inr bg"
    "py_getitem example_snapshot ''hardware2'' = Inr (PDict hw)"
    by (simp_all add: example_snapshot_def cg_def cm_def pd_def dp_def bg_def hw_def)
  have val: "py_getitem cg ''displayFilmGate'' = Inr (PBool False)"
    "py_getitem cm ''displayGateMask'' = Inr (PBool False)"
    "py_getitem pd ''gpuCache'' = Inr (PBool False)"
    "(''wireframe'', PBool True) \<in> set dp"
    "py_getitem bg ''gradient'' = Inr (PBool True)"
    "(''multiSampleEnable'', PBool True) \<in> set hw"
    "(''hwFogColor'', PTuple [half, half, half]) \<in> set hw"
    "py_getitem bg ''topColor'' = Inr (PList [half, half, half])"
    "py_getitem bg ''color'' = Inr (PList [half, half, half])"
    "py_getitem bg ''bottomColor'' = Inr (PList [half, half, half])"
    by (simp_all add: cg_def cm_def pd_def dp_def bg_def hw_def)
  have tri: "is_triple (PTuple [half, half, half]) half half half"
    "is_triple (PList [half, half, half]) half half half"
    by (simp_all add: is_triple_def)
  have sp: "spaced half half half = ''0.5 0.5 0.5''"
    by (simp add: spaced_def half_def)
  have 1: "py_truthy example_snapshot"
    by (simp add: example_snapshot_def)
  have "\<not> isl (settings_to_mel example_state example_snapshot)"
    by code_simp
  then obtain script where 2: "settings_to_mel example_state example_snapshot = Inr script"
    by (cases "settings_to_mel example_state example_snapshot") auto
  from settings_to_mel_values [OF 1 2] obtain ls where
    ls: "script = str_join [CHR 0x0A] ls"
    and gate: \<open>\<forall>cg k b. py_getitem example_snapshot ''camera_gate'' = Inr cg \<and> py_getitem cg k = Inr (PBool b)
         \<and> (k = ''displayFilmGate'' \<or> k = ''displayResolution'')
       \<longrightarrow> ''        camera -e -'' @ k @ '' '' @ mel_bool b @ '' $camera;'' \<in> set ls\<close>
    and mask: \<open>\<forall>cm b. py_getitem example_snapshot ''camera_mask'' = Inr cm \<and> py_getitem cm ''displayGateMask'' = Inr (PBool b)
       \<longrightarrow> ''        camera -e -displayGateMask '' @ mel_bool b @ '' $camera;'' \<in> set ls\<close>
    and gpu: \<open>\<forall>pd b. py_getitem example_snapshot ''plugin_display'' = Inr pd \<and> py_getitem pd ''gpuCache'' = Inr (PBool b)
       \<longrightarrow> ''    modelEditor -e -pluginObjects gpuCacheDisplayFilter '' @ mel_bool b @ '' $panel;''
             \<in> set ls\<close>
    and disp: \<open>\<forall>d attr b. py_getitem example_snapshot ''display'' = Inr (PDict d) \<and> (attr, PBool b) \<in> set d
         \<and> attr \<noteq> ''displayLights'' \<and> attr \<noteq> ''displayAppearance''
       \<longrightarrow> ''    modelEditor -e -'' @ attr @ '' '' @ mel_bool b @ '' $panel;'' \<in> set ls\<close>
    and grad: \<open>\<forall>bg b. py_getitem example_snapshot ''background'' = Inr bg \<and> py_getitem bg ''gradient'' = Inr (PBool b)
       \<longrightarrow> ''    displayPref -displayGradient '' @ mel_bool b @ '';'' \<in> set ls\<close>
    and hwb: \<open>\<forall>d attr b. py_getitem example_snapshot ''hardware2'' = Inr (PDict d) \<and> (attr, PBool b) \<in> set d
       \<longrightarrow> ''    setAttr "hardwareRenderingGlobals.'' @ attr @ ''" '' @ (if b then ''1'' else ''0'') @ '';''
             \<in> set ls\<close>
    and hwt: \<open>\<forall>d attr v x y z. py_getitem example_snapshot ''hardware2'' = Inr (PDict d) \<and> (attr, v) \<in> set d
         \<and> is_triple v x y z
       \<longrightarrow> ''    setAttr "hardwareRenderingGlobals.'' @ attr @ ''" -type double3 '' @ spaced x y z @ '';''
             \<in> set ls\<close>
    and top: \<open>\<forall>bg c x y z. py_getitem example_snapshot ''background'' = Inr bg \<and> py_getitem bg ''topColor'' = Inr c
         \<and> is_triple c x y z
       \<longrightarrow> ''    displayRGBColor "backgroundTop" '' @ spaced x y z @ '';'' \<in> set ls\<close>
    and base: \<open>\<forall>bg c x y z. py_getitem example_snapshot ''background'' = Inr bg \<and> py_getitem bg ''color'' = Inr c
         \<and> is_triple c x y z
       \<longrightarrow> ''    displayRGBColor "background" '' @ spaced x y z @ '';'' \<in> set ls\<close>
    and bottom: \<open>\<forall>bg c x y z g. py_getitem example_snapshot ''background'' = Inr bg \<and> py_getitem bg ''bottomColor'' = Inr c
         \<and> is_triple c x y z \<and> py_getitem bg ''gradient'' = Inr g \<and> py_truthy g
       \<longrightarrow> ''    displayRGBColor "backgroundBottom" '' @ spaced x y z @ '';'' \<in> set ls\<close>
    by (elim exE conjE) (rule that; assumption)
  have r1: "''        camera -e -displayFilmGate false $camera;'' \<in> set ls"
    using gate [rule_format, of cg "''displayFilmGate''" False] sec(1) val(1)
    by (simp add: mel_bool_def)
  have r2: "''        camera -e -displayGateMask false $camera;'' \<in> set ls"
    using mask [rule_format, of cm False] sec(2) val(2) by (simp add: mel_bool_def)
  have r3: "''    modelEditor -e -pluginObjects gpuCacheDisplayFilter false $panel;'' \<in> set ls"
    using gpu [rule_format, of pd False] sec(3) val(3) by (simp add: mel_bool_def)
  have r4: "''    modelEditor -e -wireframe true $panel;'' \<in> set ls"
    using disp [rule_format, of dp "''wireframe''" True] sec(4) val(4) by (simp add: mel_bool_def)
  have r5: "''    displayPref -displayGradient true;'' \<in> set ls"
    using grad [rule_format, of bg True] sec(5) val(5) by (simp add: mel_bool_def)
  have r6: \<open>''    setAttr "hardwareRenderingGlobals.multiSampleEnable" 1;'' \<in> set ls\<close>
    using hwb [rule_format, of hw "''multiSampleEnable''" True] sec(6) val(6) by simp
  have r7: \<open>''    setAttr "hardwareRenderingGlobals.hwFogColor" -type double3 0.5 0.5 0.5;'' \<in> set ls\<close>
    using hwt [rule_format, of hw "''hwFogColor''" "PTuple [half, half, half]" half half half]
      sec(6) val(7) tri(1) by (simp add: sp)
  have r8: \<open>''    displayRGBColor "backgroundTop" 0.5 0.5 0.5;'' \<in> set ls\<close>
    using top [rule_format, of bg "PList [half, half, half]" half half half]
      sec(5) val(8) tri(2) by (simp add: sp)
  have r9: \<open>''    displayRGBColor "background" 0.5 0.5 0.5;'' \<in> set ls\<close>
    using base [rule_format, of bg "PList [half, half, half]" half half half]
      sec(5) val(9) tri(2) by (simp add: sp)
  have r10: \<open>''    displayRGBColor "backgroundBottom" 0.5 0.5 0.5;'' \<in> set ls\<close>
    using bottom [rule_format, of bg "PList [half, half, half]" half half half "PBool True"]
      sec(5) val(10,5) tri(2) by (simp add: sp)
  have r0: "settings_to_mel example_state example_snapshot = Inr (str_join [CHR 0x0A] ls)"
    using 2 ls by simp
  show ?thesis
    by (rule exI [where x=ls]) (intro conjI r0 r1 r2 r3 r4 r5 r6 r7 r8 r9 r10)
qed

text \<open>
  Claim C3 as the specification words it has every Boolean, also those of the hardware
  section, written \<^verbatim>\<open>true\<close> or \<^verbatim>\<open>false\<close>. Lines 491 and 492 turn a Boolean of the hardware
  section into an integer first: a snapshot whose only Boolean is \<^verbatim>\<open>multiSampleEnable = True\<close>
  gives a script that sets the attribute to \<^verbatim>\<open>1\<close> and holds the word \<^verbatim>\<open>true\<close> nowhere.
\<close>

theorem hardware2_bool_counterexample:
  \<open>\<not> isl (mel_commands_of hardware_bool_snapshot)
   \<and> settings_to_mel example_state hardware_bool_snapshot
       = Inr (str_join [CHR 0x0A] (projr (mel_commands_of hardware_bool_snapshot)))
   \<and> ''    setAttr "hardwareRenderingGlobals.multiSampleEnable" 1;''
        \<in> set (projr (mel_commands_of hardware_bool_snapshot))
   \<and> \<not> list_ex (sublist ''true'') (projr (mel_commands_of hardware_bool_snapshot))\<close>
  by code_simp

section \<open>Programs with state\<close>

lemma ret_apply [simp]: "ret x s = (Inr x, s)"
  by (simp add: ret_def)

lemma lift_apply [simp]: "lift r s = (r, s)"
  by (simp add: lift_def)

lemma modify_apply [simp]: "modify f s = (Inr (), f s)"
  by (simp add: modify_def)

lemma update_status_apply [simp]:
  "update_status m self = (Inr (), self\<lparr>status_label := m\<rparr>)"
  by (simp add: update_status_def)

lemma bnd_Inr: "m s = (Inr x, s') \<Longrightarrow> bnd m f s = f x s'"
  by (simp add: bnd_def)

lemma bnd_Inl: "m s = (Inl e, s') \<Longrightarrow> bnd m f s = (Inl e, s')"
  by (simp add: bnd_def)

lemma bnd_cases:
  obtains (raised) e s' where "m s = (Inl e, s')" "bnd m f s = (Inl e, s')"
  | (returned) x s' where "m s = (Inr x, s')" "bnd m f s = f x s'"
proof (cases "m s")
  case (Pair r s')
  then show ?thesis
    by (cases r) (auto intro: raised returned simp: bnd_def)
qed

lemma try_except_Inr: "m s = (Inr x, s') \<Longrightarrow> try_except m h s = (Inr x, s')"
  by (simp add: try_except_def)

lemma try_except_Inl: "m s = (Inl e, s') \<Longrightarrow> try_except m h s = h e s'"
  by (simp add: try_except_def)

lemma host_outcome_apply [simp]:
  "host_outcome None s = (Inr (), s)" "host_outcome (Some e) s = (Inl e, s)"
  by simp_all

section \<open>The file system\<close>

lemma isdir_exists: "os_path_isdir fs p \<Longrightarrow> os_path_exists fs p"
  by (simp add: os_path_isdir_def os_path_exists_def)

lemma map_of_all_Dir:
  assumes "k \<in> set ks"
  shows "map_of (map (\<lambda>a. (a, Dir)) ks) k = Some Dir"
  using assms by (induction ks) auto

lemma map_of_only_Dir:
  "map_of (map (\<lambda>a. (a, Dir)) ks) k = Some n \<Longrightarrow> n = Dir"
  by (induction ks) (auto split: if_splits)

text \<open>\<^verbatim>\<open>os.makedirs\<close> adds directories and changes nothing that exists.\<close>

lemma os_makedirs_Inr:
  assumes "os_makedirs fs p = Inr fs'"
  obtains ks where "fs' = fs @ map (\<lambda>a. (a, Dir)) ks"
    and "node_at fs (path_components p) = None"
    and "path_components p \<in> set ks"
proof -
  define cs where "cs = path_components p"
  define ks where "ks = filter (\<lambda>a. node_at fs a = None) (map (\<lambda>n. take n cs) [1 ..< Suc (length cs)])"
  have none: "node_at fs cs = None"
    using assms unfolding os_makedirs_def Let_def cs_def by (simp split: if_splits)
  have fs': "fs' = fs @ map (\<lambda>a. (a, Dir)) ks"
    using assms unfolding os_makedirs_def Let_def cs_def ks_def by (simp split: if_splits)
  from none have "cs \<noteq> []"
    by (auto simp: node_at_def split: if_splits)
  then have "Suc 0 \<le> length cs" by (cases cs) auto
  then have "length cs \<in> set [1 ..< Suc (length cs)]" by simp
  then have "take (length cs) cs \<in> (\<lambda>n. take n cs) ` set [1 ..< Suc (length cs)]"
    by (rule imageI)
  then have "cs \<in> set (map (\<lambda>n. take n cs) [1 ..< Suc (length cs)])" by simp
  with none have "cs \<in> set ks" by (simp add: ks_def)
  with fs' none show thesis
    by (intro that [of ks]) (simp_all add: cs_def)
qed

lemma os_makedirs_node:
  assumes "os_makedirs fs p = Inr fs'" and "node_at fs cs = Some n"
  shows "node_at fs' cs = Some n"
proof (cases "cs = []")
  case True
  with assms(2) show ?thesis by (simp add: node_at_def)
next
  case False
  with assms(2) have "map_of fs cs = Some n" by (simp add: node_at_def)
  moreover from assms(1) obtain ks where "fs' = fs @ map (\<lambda>a. (a, Dir)) ks"
    by (rule os_makedirs_Inr)
  ultimately show ?thesis using False by (simp add: node_at_def map_add_Some_iff)
qed

lemma os_makedirs_new:
  assumes "os_makedirs fs p = Inr fs'" and "node_at fs cs = None"
  shows "node_at fs' cs = None \<or> node_at fs' cs = Some Dir"
proof -
  from assms(2) have cs: "cs \<noteq> []" "map_of fs cs = None"
    by (auto simp: node_at_def split: if_splits)
  from assms(1) obtain ks where "fs' = fs @ map (\<lambda>a. (a, Dir)) ks"
    by (rule os_makedirs_Inr)
  then have "node_at fs' cs = map_of (map (\<lambda>a. (a, Dir)) ks) cs"
    using cs by (simp add: node_at_def map_add_def)
  then show ?thesis
    by (cases "map_of (map (\<lambda>a. (a, Dir)) ks) cs") (auto dest: map_of_only_Dir)
qed

lemma os_makedirs_exists:
  assumes "os_makedirs fs p = Inr fs'"
  shows "os_path_exists fs' p"
proof -
  from assms obtain ks where fs': "fs' = fs @ map (\<lambda>a. (a, Dir)) ks"
    and none: "node_at fs (path_components p) = None"
    and mem: "path_components p \<in> set ks"
    by (rule os_makedirs_Inr)
  from none have cs: "path_components p \<noteq> []" "map_of fs (path_components p) = None"
    by (auto simp: node_at_def split: if_splits)
  from mem have "map_of (map (\<lambda>a. (a, Dir)) ks) (path_components p) = Some Dir"
    by (rule map_of_all_Dir)
  with cs fs' have "node_at fs' (path_components p) = Some Dir"
    by (simp add: node_at_def map_add_def)
  then show ?thesis by (simp add: os_path_exists_def)
qed

lemma os_makedirs_read_file:
  assumes "os_makedirs fs p = Inr fs'"
  shows "read_file fs' q = read_file fs q"
proof (cases "node_at fs (path_components q)")
  case None
  from os_makedirs_new [OF assms None] None show ?thesis
    by (auto simp: read_file_def)
next
  case (Some n)
  from os_makedirs_node [OF assms Some] Some show ?thesis
    by (simp add: read_file_def)
qed

text \<open>A write changes the node of its own path and no other.\<close>

lemma write_file_Inr:
  assumes "write_file fs p d = Inr fs'"
  shows "fs' = AList.update (path_components p) (File d) fs"
    and "node_at fs (path_components p) \<noteq> Some Dir"
proof -
  show "fs' = AList.update (path_components p) (File d) fs"
  proof (cases "node_at fs (path_components p)")
    case None
    with assms show ?thesis by (simp add: write_file_def Let_def split: if_splits)
  next
    case (Some n)
    with assms show ?thesis by (cases n) (simp_all add: write_file_def Let_def)
  qed
  show "node_at fs (path_components p) \<noteq> Some Dir"
  proof
    assume "node_at fs (path_components p) = Some Dir"
    with assms show False by (simp add: write_file_def Let_def)
  qed
qed

lemma write_file_node:
  assumes "write_file fs p d = Inr fs'"
  shows "node_at fs' cs = (if cs = path_components p then Some (File d) else node_at fs cs)"
proof -
  note fs' = write_file_Inr(1) [OF assms]
  from write_file_Inr(2) [OF assms] have ne: "path_components p \<noteq> []"
    by (auto simp: node_at_def)
  show ?thesis
    using ne by (auto simp: fs' node_at_def update_conv')
qed

lemma write_file_not_dir:
  assumes "write_file fs p d = Inr fs'"
  shows "node_at fs (path_components p) \<noteq> Some Dir"
  using assms by (rule write_file_Inr(2))

lemma write_file_read:
  assumes "write_file fs p d = Inr fs'"
  shows "read_file fs' p = Inr d"
  using write_file_node [OF assms] by (simp add: read_file_def)

lemma write_file_isdir:
  assumes "write_file fs p d = Inr fs'"
  shows "os_path_isdir fs' q = os_path_isdir fs q"
  using write_file_node [OF assms, of "path_components q"] write_file_not_dir [OF assms]
  by (auto simp: os_path_isdir_def)

lemma write_file_exists:
  assumes "write_file fs p d = Inr fs'" and "os_path_exists fs q"
  shows "os_path_exists fs' q"
  using write_file_node [OF assms(1), of "path_components q"] assms(2)
  by (auto simp: os_path_exists_def)

lemma write_file_existing:
  assumes "read_file fs p = Inr old"
  shows "write_file fs p d = Inr (AList.update (path_components p) (File d) fs)"
proof (cases "node_at fs (path_components p)")
  case None
  with assms show ?thesis by (simp add: read_file_def)
next
  case (Some n)
  with assms show ?thesis by (cases n) (simp_all add: read_file_def write_file_def Let_def)
qed

section \<open>The preset directory\<close>

lemma get_preset_dir_cases:
  assumes "get_preset_dir self = (r, self')"
  obtains (custom) "custom_preset_path self \<noteq> []"
      "os_path_isdir (disk self) (custom_preset_path self)"
      "r = Inr (custom_preset_path self)" "self' = self"
  | (present) "\<not> (custom_preset_path self \<noteq> [] \<and> os_path_isdir (disk self) (custom_preset_path self))"
      "os_path_exists (disk self) (default_preset_dir self)"
      "r = Inr (default_preset_dir self)" "self' = self"
  | (created) d where
      "\<not> (custom_preset_path self \<noteq> [] \<and> os_path_isdir (disk self) (custom_preset_path self))"
      "\<not> os_path_exists (disk self) (default_preset_dir self)"
      "os_makedirs (disk self) (default_preset_dir self) = Inr d"
      "r = Inr (default_preset_dir self)" "self' = self\<lparr>disk := d\<rparr>"
  | (failed) e where
      "\<not> (custom_preset_path self \<noteq> [] \<and> os_path_isdir (disk self) (custom_preset_path self))"
      "\<not> os_path_exists (disk self) (default_preset_dir self)"
      "os_makedirs (disk self) (default_preset_dir self) = Inl e"
      "r = Inl e" "self' = self"
proof (cases "custom_preset_path self \<noteq> [] \<and> os_path_isdir (disk self) (custom_preset_path self)")
  case True
  with assms show ?thesis by (intro custom) (auto simp: get_preset_dir_def)
next
  case no_custom: False
  show ?thesis
  proof (cases "os_path_exists (disk self) (default_preset_dir self)")
    case True
    with no_custom assms show ?thesis
      by (intro present) (auto simp: get_preset_dir_def Let_def)
  next
    case missing: False
    show ?thesis
    proof (cases "os_makedirs (disk self) (default_preset_dir self)")
      case (Inl e)
      with no_custom missing assms show ?thesis
        by (intro failed [of e]) (auto simp: get_preset_dir_def Let_def)
    next
      case (Inr d)
      with no_custom missing assms show ?thesis
        by (intro created [of d]) (auto simp: get_preset_dir_def Let_def)
    qed
  qed
qed

text \<open>The directory that \<^verbatim>\<open>get_preset_dir\<close> returns exists; no file changes.\<close>

lemma get_preset_dir_exists:
  assumes "get_preset_dir self = (Inr dir, self')"
  shows "os_path_exists (disk self') dir"
  using assms
  by (cases rule: get_preset_dir_cases) (auto intro: isdir_exists os_makedirs_exists)

lemma get_preset_dir_read_file:
  assumes "get_preset_dir self = (r, self')"
  shows "read_file (disk self') q = read_file (disk self) q"
  using assms
  by (cases rule: get_preset_dir_cases) (auto intro: os_makedirs_read_file)

lemma get_preset_dir_fields:
  assumes "get_preset_dir self = (r, self')"
  shows "\<exists>d. self' = self\<lparr>disk := d\<rparr>"
proof -
  have "self = self\<lparr>disk := disk self\<rparr>" by simp
  with assms show ?thesis
    by (cases rule: get_preset_dir_cases) blast+
qed

text \<open>The outcome does not depend on the fields that \<^verbatim>\<open>get_preset_dir\<close> does not read.\<close>

lemma get_preset_dir_other_fields:
  assumes "get_preset_dir self = (r, self')"
    and "custom_preset_path t = custom_preset_path self"
    and "user_app_dir t = user_app_dir self"
    and "disk t = disk self"
  shows "get_preset_dir t = (r, t\<lparr>disk := disk self'\<rparr>)"
proof -
  have same: "t = t\<lparr>disk := disk self\<rparr>"
    using assms(4) [symmetric] by simp
  have dd: "default_preset_dir t = default_preset_dir self"
    by (simp add: default_preset_dir_def assms(3))
  from assms(1) show ?thesis
  proof (cases rule: get_preset_dir_cases)
    case custom
    with assms(2,4) same show ?thesis by (simp add: get_preset_dir_def)
  next
    case present
    with assms(2,4) same dd show ?thesis by (auto simp: get_preset_dir_def Let_def)
  next
    case (created d)
    with assms(2,4) dd show ?thesis by (auto simp: get_preset_dir_def Let_def)
  next
    case (failed e)
    with assms(2,4) same dd show ?thesis by (auto simp: get_preset_dir_def Let_def)
  qed
qed

text \<open>A directory that is resolved without being created is resolved again after changes
  that keep the directories and remove nothing.\<close>

lemma get_preset_dir_stable:
  assumes "get_preset_dir self = (Inr dir, self)"
    and "custom_preset_path t = custom_preset_path self"
    and "user_app_dir t = user_app_dir self"
    and "\<And>q. os_path_isdir (disk t) q = os_path_isdir (disk self) q"
    and "\<And>q. os_path_exists (disk self) q \<Longrightarrow> os_path_exists (disk t) q"
  shows "get_preset_dir t = (Inr dir, t)"
  using assms(1)
proof (cases rule: get_preset_dir_cases)
  case custom
  with assms(2,4) show ?thesis by (simp add: get_preset_dir_def)
next
  case present
  have "default_preset_dir t = default_preset_dir self"
    by (simp add: default_preset_dir_def assms(3))
  with present assms(2,4) assms(5) [OF present(2)] show ?thesis
    by (auto simp: get_preset_dir_def Let_def)
next
  case (created d)
  from created(5) have "disk self = disk (self\<lparr>disk := d\<rparr>)" by (rule arg_cong)
  then have "disk self = d" by simp
  with os_makedirs_exists [OF created(3)] created(2) have False by simp
  then show ?thesis ..
next
  case (failed e)
  then show ?thesis by simp
qed

section \<open>The preset list\<close>

lemma strip5_json: "strip5 (n @ ''.json'') = n"
  by (simp add: strip5_def)

lemma endswith_json_iff: "endswith_json f \<longleftrightarrow> (\<exists>n. f = n @ ''.json'')"
  by (auto simp: endswith_json_def suffix_def)

lemma preset_names_set:
  "set (map strip5 (filter endswith_json names)) = {n. n @ ''.json'' \<in> set names}"
proof (intro set_eqI iffI)
  fix n
  assume "n \<in> set (map strip5 (filter endswith_json names))"
  then obtain f where f: "f \<in> set names" "endswith_json f" "n = strip5 f" by auto
  from f(2) obtain m where "f = m @ ''.json''" by (auto simp: endswith_json_iff)
  with f show "n \<in> {n. n @ ''.json'' \<in> set names}" by (simp add: strip5_json)
next
  fix n
  assume "n \<in> {n. n @ ''.json'' \<in> set names}"
  then have "n @ ''.json'' \<in> set names" by simp
  moreover have "endswith_json (n @ ''.json'')" by (auto simp: endswith_json_iff)
  ultimately have "strip5 (n @ ''.json'') \<in> strip5 ` set (filter endswith_json names)"
    by (intro imageI) simp
  then show "n \<in> set (map strip5 (filter endswith_json names))" by (simp add: strip5_json)
qed

text \<open>A run of \<^verbatim>\<open>refresh_preset_list\<close> whose directory can be listed.\<close>

lemma refresh_preset_list_run:
  assumes "get_preset_dir self = (Inr dir, self1)"
    and "os_listdir (disk self1) dir = Inr names"
  shows "refresh_preset_list (self\<lparr>preset_list := old\<rparr>) =
    (Inr (), self1\<lparr>preset_list := sort (map strip5 (filter endswith_json names))\<rparr>)"
proof -
  obtain d where self1: "self1 = self\<lparr>disk := d\<rparr>"
    using get_preset_dir_fields [OF assms(1)] by blast
  have g: "get_preset_dir (self\<lparr>preset_list := []\<rparr>) =
      (Inr dir, self\<lparr>preset_list := []\<rparr>\<lparr>disk := disk self1\<rparr>)"
    by (rule get_preset_dir_other_fields [OF assms(1)]) simp_all
  have s0: "self\<lparr>preset_list := []\<rparr>\<lparr>disk := disk self1\<rparr> = self1\<lparr>preset_list := []\<rparr>"
    by (simp add: self1)
  have ex: "os_path_exists (disk self1) dir"
    by (rule get_preset_dir_exists [OF assms(1)])
  show ?thesis
    unfolding refresh_preset_list_def using g s0 ex assms(2)
    by (simp add: bnd_def Let_def)
qed

text \<open>Whatever its outcome, \<^verbatim>\<open>refresh_preset_list\<close> changes the list and creates at most
  directories.\<close>

lemma refresh_preset_list_fields:
  assumes "refresh_preset_list self = (r, self')"
  shows "self' = self\<lparr>preset_list := preset_list self', disk := disk self'\<rparr>"
    and "read_file (disk self') q = read_file (disk self) q"
proof -
  let ?s0 = "self\<lparr>preset_list := []\<rparr>"
  obtain r1 s1 where g: "get_preset_dir ?s0 = (r1, s1)" by (cases "get_preset_dir ?s0")
  from get_preset_dir_fields [OF g] obtain d where s1: "s1 = ?s0\<lparr>disk := d\<rparr>" by blast
  from get_preset_dir_read_file [OF g] have rd: "\<And>q. read_file d q = read_file (disk self) q"
    by (simp add: s1)
  have both: "self' = self\<lparr>preset_list := preset_list self', disk := disk self'\<rparr> \<and> disk self' = d"
  proof (cases r1)
    case (Inl e)
    with assms g s1 show ?thesis
      by (auto simp: refresh_preset_list_def bnd_def)
  next
    case (Inr dir)
    show ?thesis
    proof (cases "os_listdir d dir")
      case (Inl e)
      with assms g s1 \<open>r1 = Inr dir\<close> show ?thesis
        by (auto simp: refresh_preset_list_def bnd_def split: if_splits)
    next
      case (Inr names)
      with assms g s1 \<open>r1 = Inr dir\<close> show ?thesis
        by (auto simp: refresh_preset_list_def bnd_def Let_def split: if_splits)
    qed
  qed
  from both show "self' = self\<lparr>preset_list := preset_list self', disk := disk self'\<rparr>" ..
  from both have "disk self' = d" ..
  with rd show "read_file (disk self') q = read_file (disk self) q" by simp
qed

text \<open>The example: the directory under the user directory and what it holds.\<close>

lemma example_preset_dir:
  "get_preset_dir example_state = (Inr ''/home/user/maya/viewportCapture/presets'', example_state)"
  by code_simp

lemma example_listdir:
  "os_listdir example_disk ''/home/user/maya/viewportCapture/presets'' =
     Inr [''shaded.json'', ''blocking.json'', ''notes.txt'']"
  by code_simp

text \<open>
  C9. The list that \<^verbatim>\<open>refresh_preset_list\<close> leaves is computed from the entries of the
  preset directory alone, whatever the list held before: it is the sorted list of the
  entries that end in \<^verbatim>\<open>.json\<close>, without these five characters, so its elements are
  exactly the names \<^verbatim>\<open>n\<close> with an entry \<^verbatim>\<open>n.json\<close>.
\<close>

theorem refresh_preset_list_lists:
  assumes "get_preset_dir self = (Inr dir, self1)"
    and "os_listdir (disk self1) dir = Inr names"
  shows "\<exists>self'. refresh_preset_list (self\<lparr>preset_list := old\<rparr>) = (Inr (), self')
           \<and> self' = self1\<lparr>preset_list := preset_list self'\<rparr>
           \<and> preset_list self' = sort (map strip5 (filter endswith_json names))
           \<and> sorted (preset_list self')
           \<and> set (preset_list self') = {n. n @ ''.json'' \<in> set names}"
proof -
  define l where "l = sort (map strip5 (filter endswith_json names))"
  have run: "refresh_preset_list (self\<lparr>preset_list := old\<rparr>) = (Inr (), self1\<lparr>preset_list := l\<rparr>)"
    unfolding l_def using assms by (rule refresh_preset_list_run)
  have elems: "set l = {n. n @ ''.json'' \<in> set names}"
    by (simp only: l_def set_sort preset_names_set)
  have "sorted l" by (simp add: l_def)
  with run elems l_def show ?thesis by simp
qed

theorem refresh_preset_list_lists_witness:
  "\<exists>self'. refresh_preset_list (example_state\<lparr>preset_list := [''stale'']\<rparr>) = (Inr (), self')
     \<and> preset_list self' = [''blocking'', ''shaded'']"
proof -
  have "os_listdir (disk example_state) ''/home/user/maya/viewportCapture/presets'' =
      Inr [''shaded.json'', ''blocking.json'', ''notes.txt'']"
    using example_listdir by (simp add: example_state_def)
  from refresh_preset_list_lists [OF example_preset_dir this, of "[''stale'']"]
  obtain self' where run: "refresh_preset_list (example_state\<lparr>preset_list := [''stale'']\<rparr>) = (Inr (), self')"
    and l: "preset_list self' =
      sort (map strip5 (filter endswith_json [''shaded.json'', ''blocking.json'', ''notes.txt'']))"
    by blast
  have "sort (map strip5 (filter endswith_json [''shaded.json'', ''blocking.json'', ''notes.txt'']))
      = [''blocking'', ''shaded'']"
    by code_simp
  with run l show ?thesis by simp
qed

text \<open>
  Claim C9 as the specification words it speaks of the names of files. A folder
  \<^verbatim>\<open>zz.json\<close> in the preset directory is no file, it cannot be read as one, and the list
  holds the name \<^verbatim>\<open>zz\<close> all the same: line 629 does not ask whether an entry is a file.
\<close>

theorem preset_list_names_a_directory:
  "os_path_isdir (disk folder_state) ''/home/user/maya/viewportCapture/presets/zz.json''
   \<and> read_file (disk folder_state) ''/home/user/maya/viewportCapture/presets/zz.json'' = Inl OSError
   \<and> refresh_preset_list folder_state
       = (Inr (), folder_state\<lparr>preset_list := [''blocking'', ''shaded'', ''zz'']\<rparr>)"
  by code_simp

section \<open>Saving a preset\<close>

text \<open>The disk that \<^verbatim>\<open>refresh_preset_list\<close> leaves is the one that \<^verbatim>\<open>get_preset_dir\<close> leaves.\<close>

lemma refresh_preset_list_disk:
  assumes "get_preset_dir self = (r1, self1)"
    and "refresh_preset_list self = (r, self')"
  shows "disk self' = disk self1"
proof -
  let ?s0 = "self\<lparr>preset_list := []\<rparr>"
  have g: "get_preset_dir ?s0 = (r1, ?s0\<lparr>disk := disk self1\<rparr>)"
    by (rule get_preset_dir_other_fields [OF assms(1)]) simp_all
  show ?thesis
  proof (cases r1)
    case (Inl e)
    with assms(2) g show ?thesis
      by (auto simp: refresh_preset_list_def bnd_def)
  next
    case (Inr dir)
    show ?thesis
    proof (cases "os_listdir (disk self1) dir")
      case (Inl e)
      with assms(2) g \<open>r1 = Inr dir\<close> show ?thesis
        by (auto simp: refresh_preset_list_def bnd_def split: if_splits)
    next
      case (Inr names)
      with assms(2) g \<open>r1 = Inr dir\<close> show ?thesis
        by (auto simp: refresh_preset_list_def bnd_def Let_def split: if_splits)
    qed
  qed
qed

lemma get_preset_dir_settings:
  assumes "get_preset_dir self = (r, self')"
  shows "last_captured_settings self' = last_captured_settings self"
    and "custom_preset_path self' = custom_preset_path self"
    and "user_app_dir self' = user_app_dir self"
  using get_preset_dir_fields [OF assms] by auto

lemma read_file_exists: "read_file fs p = Inr d \<Longrightarrow> os_path_exists fs p"
  by (cases "node_at fs (path_components p)") (auto simp: read_file_def os_path_exists_def)

text \<open>The answer \<^verbatim>\<open>No\<close> to the question about an existing file.\<close>

lemma save_preset_cancel:
  assumes "py_truthy (last_captured_settings self)" and "name \<noteq> []"
    and "get_preset_dir self = (Inr dir, self1)"
    and "os_path_exists (disk self1) (os_path_join dir (name @ ''.json''))"
  shows "save_preset ''Save'' name ''No'' self =
           (Inr (), self1\<lparr>status_label := Msg ''Save cancelled.''\<rparr>)"
  using assms by (simp add: save_preset_def bnd_def Let_def)

text \<open>A save that reaches \<^verbatim>\<open>json.dump\<close> and writes the file: what follows is the status
  line and the refresh of the list, whose exception is caught.\<close>

lemma save_preset_writes:
  assumes "py_truthy (last_captured_settings self)" and "name \<noteq> []"
    and "get_preset_dir self = (Inr dir, self1)"
    and "\<not> (os_path_exists (disk self1) (os_path_join dir (name @ ''.json'')) \<and> confirm = ''No'')"
    and "write_file (disk self1) (os_path_join dir (name @ ''.json''))
           (JsonText (json_dump (last_captured_settings self))) = Inr d"
    and "refresh_preset_list
           (self1\<lparr>disk := d,
                  status_label := Msg (''Preset '' @ [CHR 0x27] @ name @ [CHR 0x27] @ '' saved'')\<rparr>)
         = (r, s4)"
  shows "save_preset ''Save'' name confirm self =
           (Inr (), case r of Inl e \<Rightarrow> s4\<lparr>status_label := MsgExc ''Error saving preset: '' e\<rparr>
                    | Inr u \<Rightarrow> s4)"
proof -
  note lcs = get_preset_dir_settings(1) [OF assms(3)]
  show ?thesis
  proof (cases "os_path_exists (disk self1) (os_path_join dir (name @ ''.json''))")
    case True
    with assms(4) have "confirm \<noteq> ''No''" by simp
    with assms(1,2,3,5,6) lcs show ?thesis
      by (cases r) (simp_all add: save_preset_def bnd_def try_except_def Let_def)
  next
    case False
    with assms(1,2,3,5,6) lcs show ?thesis
      by (cases r) (simp_all add: save_preset_def bnd_def try_except_def Let_def)
  qed
qed

text \<open>The state after such a save: the fields that it leaves alone, and the files.\<close>

lemma save_preset_written:
  assumes "py_truthy (last_captured_settings self)" and "name \<noteq> []"
    and "get_preset_dir self = (Inr dir, self1)"
    and "\<not> (os_path_exists (disk self1) (os_path_join dir (name @ ''.json'')) \<and> confirm = ''No'')"
    and "write_file (disk self1) (os_path_join dir (name @ ''.json''))
           (JsonText (json_dump (last_captured_settings self))) = Inr d"
  obtains self' where "save_preset ''Save'' name confirm self = (Inr (), self')"
    and "\<And>q. read_file (disk self') q = read_file d q"
    and "custom_preset_path self' = custom_preset_path self"
    and "user_app_dir self' = user_app_dir self"
    and "\<And>t dir'. get_preset_dir
            (self1\<lparr>disk := d,
                   status_label := Msg (''Preset '' @ [CHR 0x27] @ name @ [CHR 0x27] @ '' saved'')\<rparr>)
            = (Inr dir', t) \<Longrightarrow> disk self' = disk t"
proof -
  let ?s3 = "self1\<lparr>disk := d,
                   status_label := Msg (''Preset '' @ [CHR 0x27] @ name @ [CHR 0x27] @ '' saved'')\<rparr>"
  obtain r s4 where rf: "refresh_preset_list ?s3 = (r, s4)"
    by (cases "refresh_preset_list ?s3")
  define self' where
    "self' = (case r of Inl e \<Rightarrow> s4\<lparr>status_label := MsgExc ''Error saving preset: '' e\<rparr>
              | Inr u \<Rightarrow> s4)"
  have run: "save_preset ''Save'' name confirm self = (Inr (), self')"
    unfolding self'_def using assms rf by (rule save_preset_writes)
  have dk: "disk self' = disk s4"
    by (cases r) (simp_all add: self'_def)
  have s4: "s4 = ?s3\<lparr>preset_list := preset_list s4, disk := disk s4\<rparr>"
    by (rule refresh_preset_list_fields(1) [OF rf])
  have cp: "custom_preset_path s4 = custom_preset_path self1"
    by (subst s4) simp
  have ua: "user_app_dir s4 = user_app_dir self1"
    by (subst s4) simp
  have "custom_preset_path self' = custom_preset_path s4" "user_app_dir self' = user_app_dir s4"
    by (cases r; simp add: self'_def)+
  with cp ua get_preset_dir_settings(2,3) [OF assms(3)]
  have fields: "custom_preset_path self' = custom_preset_path self"
    "user_app_dir self' = user_app_dir self" by simp_all
  have rd: "\<And>q. read_file (disk self') q = read_file d q"
    using refresh_preset_list_fields(2) [OF rf] dk by simp
  have stable: "\<And>t dir'. get_preset_dir ?s3 = (Inr dir', t) \<Longrightarrow> disk self' = disk t"
    using refresh_preset_list_disk [OF _ rf] dk by simp
  from run rd fields stable show thesis by (rule that)
qed

lemma example_truthy: "py_truthy (last_captured_settings example_state)"
  by (simp add: example_state_def example_snapshot_def)

lemma example_shaded:
  "read_file (disk example_state)
     (os_path_join ''/home/user/maya/viewportCapture/presets'' (''shaded'' @ ''.json'')) =
   Inr (JsonText (JObject [(''display'', JObject [])]))"
  by code_simp

text \<open>
  C6. When the file of the name exists in the preset directory, \<^verbatim>\<open>save_preset\<close> returns.
  With the answer \<^verbatim>\<open>No\<close> to the question about overwriting, it leaves the content of
  every file as it was and only sets the status line. With another answer, the file of
  the name holds the serialised snapshot afterwards, and every other file is as it was.
\<close>

theorem save_preset_overwrite:
  assumes "py_truthy (last_captured_settings self)" and "name \<noteq> []"
    and "get_preset_dir self = (Inr dir, self1)"
    and "read_file (disk self) (os_path_join dir (name @ ''.json'')) = Inr old"
  shows "\<exists>self'. save_preset ''Save'' name confirm self = (Inr (), self')
     \<and> (if confirm = ''No''
        then self' = self1\<lparr>status_label := Msg ''Save cancelled.''\<rparr>
           \<and> (\<forall>q. read_file (disk self') q = read_file (disk self) q)
        else read_file (disk self') (os_path_join dir (name @ ''.json'')) =
               Inr (JsonText (json_dump (last_captured_settings self)))
           \<and> (\<forall>q. path_components q \<noteq> path_components (os_path_join dir (name @ ''.json''))
                \<longrightarrow> read_file (disk self') q = read_file (disk self) q))"
proof -
  let ?path = "os_path_join dir (name @ ''.json'')"
  let ?data = "JsonText (json_dump (last_captured_settings self))"
  note same = get_preset_dir_read_file [OF assms(3)]
  from assms(4) have old: "read_file (disk self1) ?path = Inr old"
    by (simp add: same)
  then have ex: "os_path_exists (disk self1) ?path" by (rule read_file_exists)
  show ?thesis
  proof (cases "confirm = ''No''")
    case True
    have "save_preset ''Save'' name ''No'' self =
        (Inr (), self1\<lparr>status_label := Msg ''Save cancelled.''\<rparr>)"
      using assms(1,2,3) ex by (rule save_preset_cancel)
    with True same show ?thesis by simp
  next
    case False
    define d where "d = AList.update (path_components ?path) (File ?data) (disk self1)"
    have w: "write_file (disk self1) ?path ?data = Inr d"
      unfolding d_def using old by (rule write_file_existing)
    from False have nc: "\<not> (os_path_exists (disk self1) ?path \<and> confirm = ''No'')" by simp
    from assms(1,2,3) nc w obtain self'
      where run: "save_preset ''Save'' name confirm self = (Inr (), self')"
        and rd: "\<And>q. read_file (disk self') q = read_file d q"
      by (rule save_preset_written) blast
    have here: "read_file (disk self') ?path = Inr ?data"
      using write_file_read [OF w] by (simp add: rd)
    have others: "read_file (disk self') q = read_file (disk self) q"
      if "path_components q \<noteq> path_components ?path" for q
    proof -
      from write_file_node [OF w, of "path_components q"] that
      have "read_file d q = read_file (disk self1) q" by (simp add: read_file_def)
      with rd [of q] same [of q] show ?thesis by simp
    qed
    from False run here others show ?thesis by simp
  qed
qed

theorem save_preset_overwrite_witness:
  "save_preset ''Save'' ''shaded'' ''No'' example_state =
     (Inr (), example_state\<lparr>status_label := Msg ''Save cancelled.''\<rparr>)
   \<and> (\<exists>self'. save_preset ''Save'' ''shaded'' ''Yes'' example_state = (Inr (), self')
        \<and> read_file (disk self') ''/home/user/maya/viewportCapture/presets/shaded.json'' =
            Inr (JsonText (json_dump example_snapshot)))"
proof -
  have p: "os_path_join ''/home/user/maya/viewportCapture/presets'' (''shaded'' @ ''.json'') =
      ''/home/user/maya/viewportCapture/presets/shaded.json''"
    by code_simp
  have l: "last_captured_settings example_state = example_snapshot"
    by (simp add: example_state_def)
  have "''Yes'' \<noteq> ''No''" by simp
  with save_preset_overwrite [OF example_truthy _ example_preset_dir example_shaded,
      where confirm = "''No''"]
    save_preset_overwrite [OF example_truthy _ example_preset_dir example_shaded,
      where confirm = "''Yes''"]
  show ?thesis
    by (simp only: p l if_True if_False simp_thms) blast
qed

section \<open>Saving and loading\<close>

subsection \<open>The document that \<^verbatim>\<open>json.load\<close> reads back\<close>

lemma alist_update_fresh:
  "k \<notin> fst ` set d \<Longrightarrow> AList.update k v d = d @ [(k, v)]"
  by (induction d) auto

lemma dict_of_pairs_distinct:
  "distinct (map fst (d @ kvs)) \<Longrightarrow> dict_of_pairs d kvs = d @ kvs"
proof (induction kvs arbitrary: d)
  case Nil
  then show ?case by simp
next
  case (Cons kv kvs)
  from Cons.prems have fresh: "fst kv \<notin> fst ` set d" by auto
  from Cons.prems have "distinct (map fst ((d @ [kv]) @ kvs))" by simp
  then have "dict_of_pairs (d @ [kv]) kvs = (d @ [kv]) @ kvs" by (rule Cons.IH)
  with fresh show ?case
    by (simp add: alist_update_fresh [where v = "snd kv"])
qed

lemma tuples_to_lists_items_keys: "map fst (tuples_to_lists_items d) = map fst d"
  by (induction d) simp_all

text \<open>What was dumped is loaded with lists in the place of tuples.\<close>

lemma json_round_trip:
  "wf_pyval x \<Longrightarrow> json_load (json_dump x) = tuples_to_lists x"
  "wf_pyvals xs \<Longrightarrow> json_load_list (json_dump_list xs) = tuples_to_lists_list xs"
  "wf_items d \<Longrightarrow> json_load_items (json_dump_items d) = tuples_to_lists_items d"
proof (induction x and xs and d rule: wf_pyval_wf_pyvals_wf_items.induct)
  case (3 d)
  then have items: "json_load_items (json_dump_items d) = tuples_to_lists_items d" by simp
  from 3 have "distinct (map fst ([] @ tuples_to_lists_items d))"
    by (simp add: tuples_to_lists_items_keys)
  then have "dict_of_pairs [] (tuples_to_lists_items d) = [] @ tuples_to_lists_items d"
    by (rule dict_of_pairs_distinct)
  with items show ?case by simp
qed simp_all

subsection \<open>\<^verbatim>\<open>load_preset\<close>\<close>

text \<open>Once the file is parsed the snapshot is stored; whatever is raised afterwards is
  caught and leaves it stored.\<close>

lemma load_preset_loads:
  assumes "get_preset_dir self = (Inr dir, self1)"
    and "read_file (disk self1) (os_path_join dir (name @ ''.json'')) = Inr (JsonText j)"
  shows "fst (load_preset [name] checkbox_exc eval_exc self) = Inr ()
     \<and> last_captured_settings (snd (load_preset [name] checkbox_exc eval_exc self)) = json_load j"
  using assms
  by (cases checkbox_exc; cases eval_exc)
     (simp_all add: load_preset_def bnd_def try_except_def Let_def split: sum.split)

subsection \<open>A save followed by a load\<close>

lemma save_then_load:
  assumes "last_captured_settings self = x" and "py_truthy x" and "wf_pyval x"
    and "name \<noteq> []"
    and "get_preset_dir self = (Inr dir, self1)"
    and "get_preset_dir self1 = (Inr dir, self1)"
    and "\<not> (os_path_exists (disk self1) (os_path_join dir (name @ ''.json'')) \<and> confirm = ''No'')"
    and "write_file (disk self1) (os_path_join dir (name @ ''.json''))
           (JsonText (json_dump x)) = Inr d"
  shows "\<exists>s2 s3. save_preset ''Save'' name confirm self = (Inr (), s2)
           \<and> load_preset [name] checkbox_exc eval_exc s2 = (Inr (), s3)
           \<and> last_captured_settings s3 = tuples_to_lists x"
proof -
  let ?path = "os_path_join dir (name @ ''.json'')"
  let ?s = "self1\<lparr>disk := d,
              status_label := Msg (''Preset '' @ [CHR 0x27] @ name @ [CHR 0x27] @ '' saved'')\<rparr>"
  from assms(1,2) have truthy: "py_truthy (last_captured_settings self)" by simp
  from assms(1,8) have w: "write_file (disk self1) ?path
      (JsonText (json_dump (last_captured_settings self))) = Inr d" by simp
  from truthy assms(4,5,7) w obtain s2
    where run: "save_preset ''Save'' name confirm self = (Inr (), s2)"
      and rd: "\<And>q. read_file (disk s2) q = read_file d q"
      and cp: "custom_preset_path s2 = custom_preset_path self"
      and ua: "user_app_dir s2 = user_app_dir self"
      and st: "\<And>t dir'. get_preset_dir ?s = (Inr dir', t) \<Longrightarrow> disk s2 = disk t"
    by (rule save_preset_written) (rule that)
  have isdir: "os_path_isdir d q = os_path_isdir (disk self1) q" for q
    by (rule write_file_isdir [OF assms(8)])
  have exists: "os_path_exists d q" if "os_path_exists (disk self1) q" for q
    using assms(8) that by (rule write_file_exists)
  have "get_preset_dir ?s = (Inr dir, ?s)"
    by (rule get_preset_dir_stable [OF assms(6)]) (simp_all add: isdir exists)
  then have "disk s2 = disk ?s" by (rule st)
  then have dk: "disk s2 = d" by simp
  note same = get_preset_dir_settings(2,3) [OF assms(5)]
  have g: "get_preset_dir s2 = (Inr dir, s2)"
    by (rule get_preset_dir_stable [OF assms(6)]) (simp_all add: cp ua same dk isdir exists)
  have "read_file (disk s2) ?path = Inr (JsonText (json_dump x))"
    using write_file_read [OF assms(8)] by (simp add: dk)
  with g have "fst (load_preset [name] checkbox_exc eval_exc s2) = Inr ()
     \<and> last_captured_settings (snd (load_preset [name] checkbox_exc eval_exc s2))
        = json_load (json_dump x)"
    by (rule load_preset_loads)
  moreover have "json_load (json_dump x) = tuples_to_lists x"
    using assms(3) by (rule json_round_trip(1))
  ultimately have "load_preset [name] checkbox_exc eval_exc s2
      = (Inr (), snd (load_preset [name] checkbox_exc eval_exc s2))
     \<and> last_captured_settings (snd (load_preset [name] checkbox_exc eval_exc s2))
        = tuples_to_lists x"
    by (cases "load_preset [name] checkbox_exc eval_exc s2") simp
  with run show ?thesis by blast
qed

lemma example_wf: "wf_pyval example_snapshot"
  by (simp add: example_snapshot_def half_def)

lemma example_settings: "last_captured_settings example_state = example_snapshot"
  by (simp add: example_state_def)

lemma example_truthy_snapshot: "py_truthy example_snapshot"
  by (simp add: example_snapshot_def)

lemma example_fog_new:
  "\<not> (os_path_exists (disk example_state)
         (os_path_join ''/home/user/maya/viewportCapture/presets'' (''fog'' @ ''.json''))
       \<and> c = ''No'')"
proof -
  have "\<not> os_path_exists (disk example_state)
         (os_path_join ''/home/user/maya/viewportCapture/presets'' (''fog'' @ ''.json''))"
    by code_simp
  then show ?thesis by simp
qed

lemma example_fog_write:
  "write_file (disk example_state)
     (os_path_join ''/home/user/maya/viewportCapture/presets'' (''fog'' @ ''.json''))
     (JsonText (json_dump example_snapshot))
   = Inr (disk example_state @
          [(presets_path @ [''fog.json''], File (JsonText (json_dump example_snapshot)))])"
  by code_simp

text \<open>
  C1. A snapshot that is saved under a name and loaded back from the file of that name
  comes back with the same keys in every dictionary and with the same values, except that
  every tuple has become the list of its components. This holds for every snapshot that
  \<^verbatim>\<open>save_preset\<close> accepts, when the preset directory stays the same and the file can be
  written, and whatever the host calls of \<^verbatim>\<open>load_preset\<close> raise after the file is read.
\<close>

theorem save_load_round_trip:
  assumes "last_captured_settings self = x" and "py_truthy x" and "wf_pyval x"
    and "name \<noteq> []"
    and "get_preset_dir self = (Inr dir, self1)"
    and "get_preset_dir self1 = (Inr dir, self1)"
    and "\<not> (os_path_exists (disk self1) (os_path_join dir (name @ ''.json'')) \<and> confirm = ''No'')"
    and "write_file (disk self1) (os_path_join dir (name @ ''.json''))
           (JsonText (json_dump x)) = Inr d"
  shows "\<exists>s2 s3. save_preset ''Save'' name confirm self = (Inr (), s2)
           \<and> load_preset [name] checkbox_exc eval_exc s2 = (Inr (), s3)
           \<and> last_captured_settings s3 = tuples_to_lists x"
  using assms by (rule save_then_load)

theorem save_load_round_trip_witness:
  "\<exists>s2 s3. save_preset ''Save'' ''fog'' ''Yes'' example_state = (Inr (), s2)
     \<and> load_preset [''fog''] None None s2 = (Inr (), s3)
     \<and> last_captured_settings s3 = tuples_to_lists example_snapshot"
  by (rule save_load_round_trip [OF example_settings example_truthy_snapshot example_wf _
        example_preset_dir example_preset_dir example_fog_new example_fog_write]) simp

text \<open>The snapshot of the example holds the fog colour as a tuple; it comes back as a
  list, so the loaded snapshot is not the saved one.\<close>

theorem round_trip_counterexample:
  "\<exists>s2 s3. save_preset ''Save'' ''fog'' ''Yes'' example_state = (Inr (), s2)
     \<and> load_preset [''fog''] None None s2 = (Inr (), s3)
     \<and> bind_err (py_getitem (last_captured_settings example_state) ''hardware2'')
         (\<lambda>h. py_getitem h ''hwFogColor'') = Inr (PTuple [half, half, half])
     \<and> bind_err (py_getitem (last_captured_settings s3) ''hardware2'')
         (\<lambda>h. py_getitem h ''hwFogColor'') = Inr (PList [half, half, half])
     \<and> last_captured_settings s3 \<noteq> last_captured_settings example_state"
proof -
  from save_then_load [OF example_settings example_truthy_snapshot example_wf _
        example_preset_dir example_preset_dir example_fog_new [of "''Yes''"] example_fog_write,
        where checkbox_exc = None and eval_exc = None]
  obtain s2 s3 where run: "save_preset ''Save'' ''fog'' ''Yes'' example_state = (Inr (), s2)"
    "load_preset [''fog''] None None s2 = (Inr (), s3)"
    and l: "last_captured_settings s3 = tuples_to_lists example_snapshot"
    by auto
  have a: "bind_err (py_getitem example_snapshot ''hardware2'')
         (\<lambda>h. py_getitem h ''hwFogColor'') = Inr (PTuple [half, half, half])"
    by code_simp
  have b: "bind_err (py_getitem (tuples_to_lists example_snapshot) ''hardware2'')
         (\<lambda>h. py_getitem h ''hwFogColor'') = Inr (PList [half, half, half])"
    by code_simp
  from a b have "tuples_to_lists example_snapshot \<noteq> example_snapshot" by auto
  with run l a b show ?thesis by (simp add: example_settings)
qed

section \<open>What a capture always records\<close>


























end
